theory Spec2Isabelle
  imports Main "HOL-Library.Sublist"
begin

section \<open>Go library functions used by \<^verbatim>\<open>hack/import-assets/providers.go\<close>\<close>

text \<open>
  Go strings and byte slices are byte sequences: \<^typ>\<open>string\<close>. The library calls the
  source makes are modelled for the arguments the source gives them.

  \<^verbatim>\<open>strings.Split(s, sep)\<close> is only called with a one-byte separator (\<^verbatim>\<open>"/"\<close> and
  \<^verbatim>\<open>":"\<close>): the separator is a \<^typ>\<open>char\<close>. The result always has at least one element;
  a string without the separator gives the one-element slice holding the string itself,
  also for the empty string.
\<close>

fun strings_Split :: "string \<Rightarrow> char \<Rightarrow> string list" where
  "strings_Split [] sep = [[]]"
| "strings_Split (c # cs) sep =
     (if c = sep then [] # strings_Split cs sep
      else (case strings_Split cs sep of
              [] \<Rightarrow> [[c]]
            | w # ws \<Rightarrow> (c # w) # ws))"

text \<open>
  \<^verbatim>\<open>strings.ToLower(s)\<close> first scans \<open>s\<close> for a byte at or above \<^verbatim>\<open>utf8.RuneSelf\<close> (0x80).
  When there is none (\<open>isASCII\<close>), the letters A to Z go to a to z and every other byte is
  kept. Otherwise the result is \<^verbatim>\<open>strings.Map(unicode.ToLower, s)\<close>, which decodes \<open>s\<close> as
  UTF-8 and lower-cases every rune by Go's Unicode case tables. These tables are not part
  of the source: the function \<^verbatim>\<open>strings.Map(unicode.ToLower, _)\<close> is the parameter
  \<open>unicodeLower\<close> of the model, and of every function that lower-cases a string.
\<close>

definition toLowerByte :: "char \<Rightarrow> char" where
  "toLowerByte c =
     (case map_of (zip ''ABCDEFGHIJKLMNOPQRSTUVWXYZ'' ''abcdefghijklmnopqrstuvwxyz'') c of
        Some l \<Rightarrow> l
      | None \<Rightarrow> c)"

definition isASCII :: "string \<Rightarrow> bool" where
  "isASCII s = list_all (\<lambda>c. \<not> digit7 c) s"

definition strings_ToLower :: "(string \<Rightarrow> string) \<Rightarrow> string \<Rightarrow> string" where
  "strings_ToLower unicodeLower s = (if isASCII s then map toLowerByte s else unicodeLower s)"

text \<open>\<^verbatim>\<open>strings.Contains(s, substr)\<close>: \<open>substr\<close> occurs in \<open>s\<close> as a contiguous run.\<close>

fun strings_Contains :: "string \<Rightarrow> string \<Rightarrow> bool" where
  "strings_Contains [] substr = (substr = [])"
| "strings_Contains (c # cs) substr =
     (prefix substr (c # cs) \<or> strings_Contains cs substr)"

text \<open>
  \<^verbatim>\<open>strings.ReplaceAll(s, old, new)\<close> for a non-empty \<open>old\<close> (the source's only call has
  \<^verbatim>\<open>old = "provider"\<close>): the non-overlapping occurrences of \<open>old\<close>, found from the left,
  are replaced by \<open>new\<close>.
\<close>

fun strings_ReplaceAll :: "string \<Rightarrow> string \<Rightarrow> string \<Rightarrow> string" where
  "strings_ReplaceAll [] old new = []"
| "strings_ReplaceAll (c # cs) old new =
     (if old \<noteq> [] \<and> prefix old (c # cs)
      then new @ strings_ReplaceAll (drop (length old) (c # cs)) old new
      else c # strings_ReplaceAll cs old new)"

text \<open>\<^verbatim>\<open>bytes.TrimRight(b, cutset)\<close>: all trailing bytes that are in \<open>cutset\<close> are removed.\<close>

definition bytes_TrimRight :: "string \<Rightarrow> string \<Rightarrow> string" where
  "bytes_TrimRight b cutset = rev (dropWhile (\<lambda>c. c \<in> set cutset) (rev b))"

section \<open>The trailing-newline normalizer\<close>

text \<open>
  \<^verbatim>\<open>func ensureNewLine(b []byte) []byte {
    return append(bytes.TrimRight(b, "\n"), []byte("\n")...) }\<close>
\<close>

definition ensureNewLine :: "string \<Rightarrow> string" where
  "ensureNewLine b = bytes_TrimRight b [CHR 0x0A] @ [CHR 0x0A]"

section \<open>The object model\<close>

text \<open>
  An \<^verbatim>\<open>unstructured.Unstructured\<close> object, as far as the source reads it: its kind, its
  name and its annotations (\<^verbatim>\<open>GetKind\<close>, \<^verbatim>\<open>GetName\<close>, \<^verbatim>\<open>GetAnnotations\<close>; a nil annotation
  map is the empty map), and the fields the source reads after \<^verbatim>\<open>scheme.Convert\<close> to the
  typed object of its kind:
  \<^item> \<open>Convert_ok\<close>: \<^verbatim>\<open>scheme.Convert\<close> returns no error for this object;
  \<^item> \<open>Spec_SecretName\<close>: \<^verbatim>\<open>cert.Spec.SecretName\<close> of a Certificate;
  \<^item> \<open>Conversion_Service\<close>: \<^verbatim>\<open>crd.Spec.Conversion.Webhook.ClientConfig.Service.Name\<close> of a
    CustomResourceDefinition, \<open>None\<close> when a pointer on that path is nil;
  \<^item> \<open>Webhooks_Service\<close>: for each entry of \<^verbatim>\<open>Webhooks\<close> of a webhook configuration its
    \<^verbatim>\<open>ClientConfig.Service.Name\<close>, \<open>None\<close> when the \<^verbatim>\<open>Service\<close> pointer is nil;
  \<^item> \<open>Containers_Image\<close>: the \<^verbatim>\<open>Image\<close> of each of
    \<^verbatim>\<open>dep.Spec.Template.Spec.Containers\<close> of a Deployment.
\<close>

record manifest_object =
  GetKind :: string
  GetName :: string
  GetAnnotations :: "string \<rightharpoonup> string"
  Convert_ok :: bool
  Spec_SecretName :: string
  Conversion_Service :: "string option"
  Webhooks_Service :: "string option list"
  Containers_Image :: "string list"

text \<open>The fields of \<^verbatim>\<open>type provider struct\<close> that the transformation reads.\<close>

record provider =
  name :: string
  version :: string
  ptype :: string

text \<open>
  Panics and error returns. \<open>CantFindSecret certNN\<close> is
  \<^verbatim>\<open>panic("can't find secret from cert " + certNN)\<close>; \<open>ConvertError\<close> is the error of
  \<^verbatim>\<open>scheme.Convert\<close> (a panic in the resolver, an error return in \<^verbatim>\<open>updateImages\<close>);
  \<open>IndexOutOfRange\<close> and \<open>NilPointerDereference\<close> are the Go runtime's panics.
\<close>

datatype error =
    ConvertError
  | IndexOutOfRange
  | NilPointerDereference
  | CantFindSecret string
  | ReadFileError
  | UnmarshalError
  | WriteFileError

abbreviation inject_ca_from :: string where
  "inject_ca_from \<equiv> ''cert-manager.io/inject-ca-from''"

abbreviation inject_cabundle :: string where
  "inject_cabundle \<equiv> ''service.beta.openshift.io/inject-cabundle''"

abbreviation serving_cert_secret_name :: string where
  "serving_cert_secret_name \<equiv> ''service.beta.openshift.io/serving-cert-secret-name''"

section \<open>The provider type name and the image key\<close>

text \<open>
  \<^verbatim>\<open>func (p *provider) providerTypeName() string {
    return strings.ReplaceAll(strings.ToLower(string(p.ptype)), "provider", "") }\<close>
\<close>

definition providerTypeName :: "(string \<Rightarrow> string) \<Rightarrow> provider \<Rightarrow> string" where
  "providerTypeName unicodeLower p = strings_ReplaceAll (strings_ToLower unicodeLower (ptype p)) ''provider'' ''''"

text \<open>
  \<^verbatim>\<open>imageToKey\<close>: \<^verbatim>\<open>frag[len(frag)-1]\<close> and \<^verbatim>\<open>strings.Split(nameVer, ":")[0]\<close> are always in
  range, since \<^verbatim>\<open>strings.Split\<close> never returns an empty slice (lemma
  \<open>strings_Split_not_Nil\<close> below).
\<close>

definition imageToKey :: "(string \<Rightarrow> string) \<Rightarrow> provider \<Rightarrow> string \<Rightarrow> string" where
  "imageToKey unicodeLower p fullImage =
     (let frag = strings_Split fullImage CHR ''/'';
          nameVer = last frag;
          nm = hd (strings_Split nameVer CHR '':'')
      in if nm = ''kube-rbac-proxy'' then ''kube-rbac-proxy''
         else if nm = ''ip-address-manager'' then providerTypeName unicodeLower p @ ''-'' @ name p @ '':'' @ nm
         else providerTypeName unicodeLower p @ ''-'' @ name p @ '':manager'')"

section \<open>The certificate and webhook resolver\<close>

text \<open>
  The closure \<^verbatim>\<open>secretFromCertNN\<close>, with the map \<^verbatim>\<open>certSecretNames\<close> it captures as its
  first argument. \<^verbatim>\<open>strings.Split(certNN, "/")[1]\<close> panics when the split has one element.
\<close>

definition secretFromCertNN :: "(string \<rightharpoonup> string) \<Rightarrow> string \<Rightarrow> error + (string \<times> bool)" where
  "secretFromCertNN certSecretNames certNN =
     (case strings_Split certNN CHR ''/'' of
        _ # certName # _ \<Rightarrow>
          (case certSecretNames certName of
             None \<Rightarrow> Inr ('''', False)
           | Some secretName \<Rightarrow>
               if secretName = '''' then Inr ('''', False) else Inr (secretName, True))
      | _ \<Rightarrow> Inl IndexOutOfRange)"

text \<open>The first loop: every Certificate records \<^verbatim>\<open>certSecretNames[cert.Name] = cert.Spec.SecretName\<close>.\<close>

fun findWebhookServiceSecretName_certs ::
  "manifest_object list \<Rightarrow> (string \<rightharpoonup> string) \<Rightarrow> error + (string \<rightharpoonup> string)" where
  "findWebhookServiceSecretName_certs [] certSecretNames = Inr certSecretNames"
| "findWebhookServiceSecretName_certs (obj # objs) certSecretNames =
     (if GetKind obj = ''Certificate'' then
        (if Convert_ok obj
         then findWebhookServiceSecretName_certs objs
                (certSecretNames(GetName obj \<mapsto> Spec_SecretName obj))
         else Inl ConvertError)
      else findWebhookServiceSecretName_certs objs certSecretNames)"

text \<open>\<^verbatim>\<open>crd.Spec.Conversion.Webhook.ClientConfig.Service.Name\<close>\<close>

definition conversionServiceName :: "manifest_object \<Rightarrow> error + string" where
  "conversionServiceName obj =
     (case Conversion_Service obj of None \<Rightarrow> Inl NilPointerDereference | Some n \<Rightarrow> Inr n)"

text \<open>\<^verbatim>\<open>mwc.Webhooks[0].ClientConfig.Service.Name\<close> (and the same of \<^verbatim>\<open>vwc\<close>)\<close>

definition firstWebhookServiceName :: "manifest_object \<Rightarrow> error + string" where
  "firstWebhookServiceName obj =
     (case Webhooks_Service obj of
        [] \<Rightarrow> Inl IndexOutOfRange
      | None # _ \<Rightarrow> Inl NilPointerDereference
      | Some n # _ \<Rightarrow> Inr n)"

text \<open>
  The body shared by the three cases of the second loop (they differ only in the service
  name they read, \<open>svc\<close>, which Go evaluates last): convert, look the annotation up,
  resolve the secret, record \<^verbatim>\<open>serviceSecretNames[svc] = secretName\<close>.
\<close>

definition recordInjection ::
  "(string \<rightharpoonup> string) \<Rightarrow> manifest_object \<Rightarrow> error + string \<Rightarrow> (string \<rightharpoonup> string)
     \<Rightarrow> error + (string \<rightharpoonup> string)" where
  "recordInjection certSecretNames obj svc serviceSecretNames =
     (if \<not> Convert_ok obj then Inl ConvertError
      else case GetAnnotations obj inject_ca_from of
             None \<Rightarrow> Inr serviceSecretNames
           | Some certNN \<Rightarrow>
               (case secretFromCertNN certSecretNames certNN of
                  Inl e \<Rightarrow> Inl e
                | Inr (secretName, ok) \<Rightarrow>
                    if \<not> ok then Inl (CantFindSecret certNN)
                    else (case svc of
                            Inl e \<Rightarrow> Inl e
                          | Inr s \<Rightarrow> Inr (serviceSecretNames(s \<mapsto> secretName)))))"

definition findWebhookServiceSecretName_obj ::
  "(string \<rightharpoonup> string) \<Rightarrow> manifest_object \<Rightarrow> (string \<rightharpoonup> string) \<Rightarrow> error + (string \<rightharpoonup> string)" where
  "findWebhookServiceSecretName_obj certSecretNames obj serviceSecretNames =
     (if GetKind obj = ''CustomResourceDefinition'' then
        recordInjection certSecretNames obj (conversionServiceName obj) serviceSecretNames
      else if GetKind obj = ''MutatingWebhookConfiguration'' then
        recordInjection certSecretNames obj (firstWebhookServiceName obj) serviceSecretNames
      else if GetKind obj = ''ValidatingWebhookConfiguration'' then
        recordInjection certSecretNames obj (firstWebhookServiceName obj) serviceSecretNames
      else Inr serviceSecretNames)"

text \<open>The second loop, which stops at the first panic.\<close>

fun findWebhookServiceSecretName_services ::
  "(string \<rightharpoonup> string) \<Rightarrow> manifest_object list \<Rightarrow> (string \<rightharpoonup> string)
     \<Rightarrow> error + (string \<rightharpoonup> string)" where
  "findWebhookServiceSecretName_services certSecretNames [] serviceSecretNames =
     Inr serviceSecretNames"
| "findWebhookServiceSecretName_services certSecretNames (obj # objs) serviceSecretNames =
     (case findWebhookServiceSecretName_obj certSecretNames obj serviceSecretNames of
        Inl e \<Rightarrow> Inl e
      | Inr m \<Rightarrow> findWebhookServiceSecretName_services certSecretNames objs m)"

definition findWebhookServiceSecretName ::
  "manifest_object list \<Rightarrow> error + (string \<rightharpoonup> string)" where
  "findWebhookServiceSecretName objs =
     (case findWebhookServiceSecretName_certs objs Map.empty of
        Inl e \<Rightarrow> Inl e
      | Inr certSecretNames \<Rightarrow>
          findWebhookServiceSecretName_services certSecretNames objs Map.empty)"

section \<open>The CA-injection rewrite\<close>

text \<open>
  The loop of \<^verbatim>\<open>certManagerToServiceCA\<close>, with \<^verbatim>\<open>finalObjs\<close> as the accumulator.
  \<^verbatim>\<open>SetAnnotations\<close> is only called after a key was stored, so an object whose annotation is
  not rewritten is appended as it is. The loop variable \<^verbatim>\<open>obj\<close> shares its content with the
  element of the input slice, so \<^verbatim>\<open>SetAnnotations\<close> changes that one too; the model gives the
  returned slice. \<^verbatim>\<open>fmt.Println\<close> writes to standard output and is left out.
\<close>

fun certManagerToServiceCA_loop ::
  "(string \<rightharpoonup> string) \<Rightarrow> manifest_object list \<Rightarrow> manifest_object list \<Rightarrow> manifest_object list" where
  "certManagerToServiceCA_loop serviceSecretNames [] finalObjs = finalObjs"
| "certManagerToServiceCA_loop serviceSecretNames (obj # objs) finalObjs =
     (if GetKind obj = ''CustomResourceDefinition''
         \<or> GetKind obj = ''MutatingWebhookConfiguration''
         \<or> GetKind obj = ''ValidatingWebhookConfiguration'' then
        (case GetAnnotations obj inject_ca_from of
           Some _ \<Rightarrow>
             certManagerToServiceCA_loop serviceSecretNames objs
               (finalObjs @ [obj\<lparr>GetAnnotations :=
                  ((GetAnnotations obj)(inject_cabundle \<mapsto> ''true''))(inject_ca_from := None)\<rparr>])
         | None \<Rightarrow> certManagerToServiceCA_loop serviceSecretNames objs (finalObjs @ [obj]))
      else if GetKind obj = ''Service'' then
        (case serviceSecretNames (GetName obj) of
           Some nm \<Rightarrow>
             certManagerToServiceCA_loop serviceSecretNames objs
               (finalObjs @ [obj\<lparr>GetAnnotations :=
                  (GetAnnotations obj)(serving_cert_secret_name \<mapsto> nm)\<rparr>])
         | None \<Rightarrow> certManagerToServiceCA_loop serviceSecretNames objs (finalObjs @ [obj]))
      else if GetKind obj = ''Certificate'' \<or> GetKind obj = ''Issuer''
         \<or> GetKind obj = ''Namespace'' then
        certManagerToServiceCA_loop serviceSecretNames objs finalObjs
      else certManagerToServiceCA_loop serviceSecretNames objs (finalObjs @ [obj]))"

definition certManagerToServiceCA :: "manifest_object list \<Rightarrow> error + manifest_object list" where
  "certManagerToServiceCA objs =
     (case findWebhookServiceSecretName objs of
        Inl e \<Rightarrow> Inl e
      | Inr serviceSecretNames \<Rightarrow> Inr (certManagerToServiceCA_loop serviceSecretNames objs []))"

section \<open>The RBAC partitioner and the component filter\<close>

text \<open>
  \<^verbatim>\<open>setOpenShiftAnnotations\<close> is defined outside this file: it is the parameter
  \<open>setOpenShiftAnnotations\<close> of the model, giving the object as it is after the call.
\<close>

fun splitRBACOut_loop ::
  "(manifest_object \<Rightarrow> bool \<Rightarrow> manifest_object) \<Rightarrow> manifest_object list
     \<Rightarrow> manifest_object list \<Rightarrow> manifest_object list
     \<Rightarrow> manifest_object list \<times> manifest_object list" where
  "splitRBACOut_loop setOpenShiftAnnotations [] finalObjs rbacObjs = (finalObjs, rbacObjs)"
| "splitRBACOut_loop setOpenShiftAnnotations (obj # objs) finalObjs rbacObjs =
     (if GetKind obj = ''ClusterRole'' \<or> GetKind obj = ''Role''
         \<or> GetKind obj = ''ClusterRoleBinding'' \<or> GetKind obj = ''RoleBinding''
         \<or> GetKind obj = ''ServiceAccount'' then
        splitRBACOut_loop setOpenShiftAnnotations objs finalObjs
          (rbacObjs @ [setOpenShiftAnnotations obj False])
      else splitRBACOut_loop setOpenShiftAnnotations objs (finalObjs @ [obj]) rbacObjs)"

definition splitRBACOut ::
  "(manifest_object \<Rightarrow> bool \<Rightarrow> manifest_object) \<Rightarrow> manifest_object list
     \<Rightarrow> manifest_object list \<times> manifest_object list" where
  "splitRBACOut setOpenShiftAnnotations objs =
     splitRBACOut_loop setOpenShiftAnnotations objs [] []"

fun filterOutIPAM_loop ::
  "(string \<Rightarrow> string) \<Rightarrow> manifest_object list \<Rightarrow> manifest_object list
     \<Rightarrow> manifest_object list" where
  "filterOutIPAM_loop unicodeLower [] finalObjs = finalObjs"
| "filterOutIPAM_loop unicodeLower (obj # objs) finalObjs =
     (if GetKind obj = ''CustomResourceDefinition''
         \<or> \<not> strings_Contains (strings_ToLower unicodeLower (GetName obj)) ''ipam''
      then filterOutIPAM_loop unicodeLower objs (finalObjs @ [obj])
      else filterOutIPAM_loop unicodeLower objs finalObjs)"

definition filterOutIPAM ::
  "(string \<Rightarrow> string) \<Rightarrow> manifest_object list \<Rightarrow> manifest_object list" where
  "filterOutIPAM unicodeLower objs = filterOutIPAM_loop unicodeLower objs []"

section \<open>The image catalog\<close>

text \<open>
  The file \<^verbatim>\<open>sample-images.json\<close> as \<^verbatim>\<open>updateImages\<close> finds it: it cannot be read, it
  does not decode into a \<^verbatim>\<open>map[string]string\<close>, or it holds a catalog.
\<close>

datatype sample_images = Unreadable | Malformed | Images "string \<rightharpoonup> string"

text \<open>The inner loop: \<^verbatim>\<open>containerImages[p.imageToKey(c.Image)] = c.Image\<close>.\<close>

fun updateImages_containers ::
  "(string \<Rightarrow> string) \<Rightarrow> provider \<Rightarrow> string list \<Rightarrow> (string \<rightharpoonup> string)
     \<Rightarrow> (string \<rightharpoonup> string)" where
  "updateImages_containers unicodeLower p [] containerImages = containerImages"
| "updateImages_containers unicodeLower p (img # imgs) containerImages =
     updateImages_containers unicodeLower p imgs (containerImages(imageToKey unicodeLower p img \<mapsto> img))"

fun updateImages_loop ::
  "(string \<Rightarrow> string) \<Rightarrow> provider \<Rightarrow> manifest_object list \<Rightarrow> (string \<rightharpoonup> string) \<Rightarrow> error + (string \<rightharpoonup> string)" where
  "updateImages_loop unicodeLower p [] containerImages = Inr containerImages"
| "updateImages_loop unicodeLower p (obj # objs) containerImages =
     (if GetKind obj = ''Deployment'' then
        (if Convert_ok obj
         then updateImages_loop unicodeLower p objs
                (updateImages_containers unicodeLower p (Containers_Image obj) containerImages)
         else Inl ConvertError)
      else updateImages_loop unicodeLower p objs containerImages)"

text \<open>
  \<^verbatim>\<open>updateImages\<close>: \<open>file\<close> is the catalog file before the call, \<open>write_ok\<close> says whether
  \<^verbatim>\<open>ioutil.WriteFile\<close> succeeds; the result is the file after the call, or the error
  returned (the file is then not written, or its write failed).
\<close>

definition updateImages ::
  "(string \<Rightarrow> string) \<Rightarrow> provider \<Rightarrow> manifest_object list \<Rightarrow> sample_images \<Rightarrow> bool \<Rightarrow> error + sample_images" where
  "updateImages unicodeLower p objs file write_ok =
     (case file of
        Unreadable \<Rightarrow> Inl ReadFileError
      | Malformed \<Rightarrow> Inl UnmarshalError
      | Images containerImages \<Rightarrow>
          (case updateImages_loop unicodeLower p objs containerImages of
             Inl e \<Rightarrow> Inl e
           | Inr containerImages' \<Rightarrow>
               if write_ok then Inr (Images containerImages') else Inl WriteFileError))"

section \<open>The pipeline of \<^verbatim>\<open>importProviders\<close>\<close>

text \<open>The \<^verbatim>\<open>providers\<close> table.\<close>

definition providers :: "provider list" where
  "providers =
     [\<lparr>name = ''cluster-api'', version = '''', ptype = ''CoreProvider''\<rparr>,
      \<lparr>name = ''aws'', version = '''', ptype = ''InfrastructureProvider''\<rparr>,
      \<lparr>name = ''azure'', version = '''', ptype = ''InfrastructureProvider''\<rparr>,
      \<lparr>name = ''metal3'', version = '''', ptype = ''InfrastructureProvider''\<rparr>,
      \<lparr>name = ''gcp'', version = '''', ptype = ''InfrastructureProvider''\<rparr>,
      \<lparr>name = ''openstack'', version = '''', ptype = ''InfrastructureProvider''\<rparr>]"

text \<open>
  The two streams one provider's objects are turned into, before they are written:
  \<^verbatim>\<open>finalObjs, rbacObjs := splitRBACOut(certManagerToServiceCA(p.components.Objs()))
  if p.name == "metal3" { finalObjs = filterOutIPAM(finalObjs) }\<close>
\<close>

definition importProviders_streams ::
  "(string \<Rightarrow> string) \<Rightarrow> (manifest_object \<Rightarrow> bool \<Rightarrow> manifest_object) \<Rightarrow> provider \<Rightarrow> manifest_object list
     \<Rightarrow> error + (manifest_object list \<times> manifest_object list)" where
  "importProviders_streams unicodeLower setOpenShiftAnnotations p objs =
     (case certManagerToServiceCA objs of
        Inl e \<Rightarrow> Inl e
      | Inr rewritten \<Rightarrow>
          (case splitRBACOut setOpenShiftAnnotations rewritten of
             (finalObjs, rbacObjs) \<Rightarrow>
               Inr (if name p = ''metal3'' then filterOutIPAM unicodeLower finalObjs else finalObjs,
                    rbacObjs)))"

section \<open>Notions of the specification\<close>

text \<open>
  The definitions of this section are not translated from the source: they are the
  notions the claims are stated with, written from the specification's words.

  \<open>certificateBinding\<close> is the specification's CertificateBinding, the map from each
  Certificate's name to the secret it provisions; \<open>decodedCertName\<close> is the
  certificate-name component of an injection reference
  \<^verbatim>\<open>"<namespace>/<certificate-name>"\<close>; an injection target is an object of one of the three
  kinds whose injection annotation is resolved; \<open>resolvesToSecret\<close> says that a reference
  resolves to a non-empty secret name, \<open>injectionResolves\<close> that the injection annotation
  an object carries (if it is an injection target and carries one) does;
  \<open>hasServiceReference\<close> that the service the resolver records for the object exists (the
  conversion webhook's service of a CustomResourceDefinition, the service of the first
  webhook of a webhook configuration); \<open>resolverStepOk\<close> collects what the second loop
  needs of one object.
\<close>

definition certificateBinding :: "manifest_object list \<Rightarrow> (string \<rightharpoonup> string)" where
  "certificateBinding objs =
     fold (\<lambda>obj m. if GetKind obj = ''Certificate''
                    then m(GetName obj \<mapsto> Spec_SecretName obj) else m) objs Map.empty"

definition decodedCertName :: "string \<Rightarrow> string option" where
  "decodedCertName certNN =
     (case strings_Split certNN CHR ''/'' of _ # certName # _ \<Rightarrow> Some certName | _ \<Rightarrow> None)"

definition isInjectionTarget :: "manifest_object \<Rightarrow> bool" where
  "isInjectionTarget obj =
     (GetKind obj = ''CustomResourceDefinition''
      \<or> GetKind obj = ''MutatingWebhookConfiguration''
      \<or> GetKind obj = ''ValidatingWebhookConfiguration'')"

definition resolvesToSecret :: "(string \<rightharpoonup> string) \<Rightarrow> string \<Rightarrow> bool" where
  "resolvesToSecret certs certNN =
     (case decodedCertName certNN of
        None \<Rightarrow> False
      | Some certName \<Rightarrow> (case certs certName of None \<Rightarrow> False | Some s \<Rightarrow> s \<noteq> ''''))"

definition injectionResolves :: "(string \<rightharpoonup> string) \<Rightarrow> manifest_object \<Rightarrow> bool" where
  "injectionResolves certs obj =
     (if isInjectionTarget obj
      then (case GetAnnotations obj inject_ca_from of
              None \<Rightarrow> True
            | Some certNN \<Rightarrow> resolvesToSecret certs certNN)
      else True)"

definition hasServiceReference :: "manifest_object \<Rightarrow> bool" where
  "hasServiceReference obj =
     (if GetKind obj = ''CustomResourceDefinition'' then Conversion_Service obj \<noteq> None
      else (case Webhooks_Service obj of Some _ # _ \<Rightarrow> True | _ \<Rightarrow> False))"

definition resolverStepOk :: "(string \<rightharpoonup> string) \<Rightarrow> manifest_object \<Rightarrow> bool" where
  "resolverStepOk certs obj =
     (if isInjectionTarget obj
      then Convert_ok obj \<and>
           (case GetAnnotations obj inject_ca_from of
              None \<Rightarrow> True
            | Some certNN \<Rightarrow> resolvesToSecret certs certNN \<and> hasServiceReference obj)
      else True)"

text \<open>
  The kinds the rewrite drops and the kinds the partitioner moves to the rbac stream;
  \<open>rewriteObject\<close>, what the rewrite makes of one object it keeps, given the resolved
  mapping; \<open>isIPAM\<close>, the objects the component filter removes.
\<close>

definition isDroppedKind :: "manifest_object \<Rightarrow> bool" where
  "isDroppedKind obj =
     (GetKind obj = ''Certificate'' \<or> GetKind obj = ''Issuer'' \<or> GetKind obj = ''Namespace'')"

definition isRBAC :: "manifest_object \<Rightarrow> bool" where
  "isRBAC obj =
     (GetKind obj = ''ClusterRole'' \<or> GetKind obj = ''Role''
      \<or> GetKind obj = ''ClusterRoleBinding'' \<or> GetKind obj = ''RoleBinding''
      \<or> GetKind obj = ''ServiceAccount'')"

definition rewriteObject :: "(string \<rightharpoonup> string) \<Rightarrow> manifest_object \<Rightarrow> manifest_object" where
  "rewriteObject serviceSecretNames obj =
     (if isInjectionTarget obj \<and> GetAnnotations obj inject_ca_from \<noteq> None then
        obj\<lparr>GetAnnotations :=
          ((GetAnnotations obj)(inject_cabundle \<mapsto> ''true''))(inject_ca_from := None)\<rparr>
      else if GetKind obj = ''Service'' then
        (case serviceSecretNames (GetName obj) of
           Some nm \<Rightarrow> obj\<lparr>GetAnnotations := (GetAnnotations obj)(serving_cert_secret_name \<mapsto> nm)\<rparr>
         | None \<Rightarrow> obj)
      else obj)"

definition isIPAM :: "(string \<Rightarrow> string) \<Rightarrow> manifest_object \<Rightarrow> bool" where
  "isIPAM unicodeLower obj =
     (GetKind obj \<noteq> ''CustomResourceDefinition''
      \<and> strings_Contains (strings_ToLower unicodeLower (GetName obj)) ''ipam'')"

text \<open>
  Where the pipeline of one provider (rewrite, partition, and for \<open>metal3\<close> the component
  filter, which only sees the core stream) sends an input object: \<open>route\<close>.
  \<open>claimedDropped\<close> is the dropped set in the words of the conservation claim: the
  Certificate, Issuer and Namespace objects, and for \<open>metal3\<close> every object that is not a
  CustomResourceDefinition and has \<open>ipam\<close> in its lower-cased name.
\<close>

datatype destination = CoreStream | RBACStream | Dropped

definition route :: "(string \<Rightarrow> string) \<Rightarrow> provider \<Rightarrow> manifest_object \<Rightarrow> destination" where
  "route unicodeLower p obj =
     (if isDroppedKind obj then Dropped
      else if isRBAC obj then RBACStream
      else if name p = ''metal3'' \<and> isIPAM unicodeLower obj then Dropped
      else CoreStream)"

definition claimedDropped :: "(string \<Rightarrow> string) \<Rightarrow> provider \<Rightarrow> manifest_object \<Rightarrow> bool" where
  "claimedDropped unicodeLower p obj = (isDroppedKind obj \<or> (name p = ''metal3'' \<and> isIPAM unicodeLower obj))"

text \<open>
  \<open>componentName_spec\<close> is the bare component name in the words of the specification: the
  trailing path segment of the image reference, with its tag (\<^verbatim>\<open>:tag\<close>) or digest
  (\<^verbatim>\<open>@algorithm:hex\<close>) suffix stripped. \<open>deploymentImages\<close> are the container images of the
  run, in stream order: the images of the containers of every Deployment.
\<close>

definition componentName_spec :: "string \<Rightarrow> string" where
  "componentName_spec fullImage =
     takeWhile (\<lambda>c. c \<noteq> CHR '':'' \<and> c \<noteq> CHR ''@'')
       (rev (takeWhile (\<lambda>c. c \<noteq> CHR ''/'') (rev fullImage)))"

definition deploymentImages :: "manifest_object list \<Rightarrow> string list" where
  "deploymentImages objs =
     concat (map Containers_Image (filter (\<lambda>obj. GetKind obj = ''Deployment'') objs))"

section \<open>Example objects\<close>

text \<open>
  Concrete inputs for the evaluations below: an object of a kind and name with no
  annotations and no typed fields, the objects of the specification's end-to-end example
  (a Certificate \<open>c1\<close> for the secret \<open>s1\<close>, a CustomResourceDefinition whose injection
  annotation is \<open>ns/c1\<close> and whose conversion webhook is served by \<open>svc1\<close>, the Service
  \<open>svc1\<close>), and a stand-in for the platform-annotation step.

  \<open>ex_deployment_nonascii\<close> is a Deployment whose name is U+0130 (capital I with dot
  above, the bytes C4 B0 in UTF-8) followed by \<open>PAM\<close>. Go's Unicode tables lower-case
  U+0130 to \<open>i\<close>, so \<^verbatim>\<open>strings.ToLower\<close> of this name is \<open>ipam\<close>. \<open>ex_unicodeLower\<close> stands for
  \<^verbatim>\<open>strings.Map(unicode.ToLower, _)\<close> in the evaluations: it gives that result for that
  name, which is the only string with a byte beyond ASCII that the evaluations lower-case.
\<close>

definition mkObject :: "string \<Rightarrow> string \<Rightarrow> manifest_object" where
  "mkObject k n = \<lparr>GetKind = k, GetName = n, GetAnnotations = Map.empty, Convert_ok = True,
     Spec_SecretName = '''', Conversion_Service = None, Webhooks_Service = [],
     Containers_Image = []\<rparr>"

definition ex_certificate :: manifest_object where
  "ex_certificate = (mkObject ''Certificate'' ''c1'')\<lparr>Spec_SecretName := ''s1''\<rparr>"

definition ex_crd :: manifest_object where
  "ex_crd = (mkObject ''CustomResourceDefinition'' ''crd1'')
     \<lparr>GetAnnotations := [inject_ca_from \<mapsto> ''ns/c1''], Conversion_Service := Some ''svc1''\<rparr>"

definition ex_service :: manifest_object where
  "ex_service = mkObject ''Service'' ''svc1''"

definition ex_deployment :: manifest_object where
  "ex_deployment = (mkObject ''Deployment'' ''capi-controller-manager'')
     \<lparr>Containers_Image := [''registry.example/capi/controller:v1'',
                           ''registry.example/capi/helper:v1'']\<rparr>"

definition ex_setOpenShiftAnnotations :: "manifest_object \<Rightarrow> bool \<Rightarrow> manifest_object" where
  "ex_setOpenShiftAnnotations obj b =
     obj\<lparr>GetAnnotations := (GetAnnotations obj)(''example.openshift.io/annotated'' \<mapsto> ''true'')\<rparr>"

definition ex_deployment_nonascii :: manifest_object where
  "ex_deployment_nonascii =
     mkObject ''Deployment'' [CHR 0xC4, CHR 0xB0, CHR ''P'', CHR ''A'', CHR ''M'']"

definition ex_unicodeLower :: "string \<Rightarrow> string" where
  "ex_unicodeLower s =
     (if s = [CHR 0xC4, CHR 0xB0, CHR ''P'', CHR ''A'', CHR ''M''] then ''ipam'' else s)"

definition ex_metal3 :: provider where
  "ex_metal3 = \<lparr>name = ''metal3'', version = ''v1'', ptype = ''InfrastructureProvider''\<rparr>"

definition ex_aws :: provider where
  "ex_aws = \<lparr>name = ''aws'', version = ''v1'', ptype = ''InfrastructureProvider''\<rparr>"

section \<open>Properties of the library functions\<close>

lemma takeWhile_eq_replicate:
  "takeWhile (\<lambda>c. c = a) xs = replicate (length (takeWhile (\<lambda>c. c = a) xs)) a"
  by (induction xs) simp_all

lemma bytes_TrimRight_decomp:
  "b = bytes_TrimRight b [a] @ replicate (length (takeWhile (\<lambda>c. c = a) (rev b))) a"
proof -
  have "rev b = takeWhile (\<lambda>c. c = a) (rev b) @ dropWhile (\<lambda>c. c = a) (rev b)"
    by simp
  then have "b = rev (dropWhile (\<lambda>c. c = a) (rev b)) @ rev (takeWhile (\<lambda>c. c = a) (rev b))"
    by (metis rev_append rev_rev_ident)
  moreover have "rev (takeWhile (\<lambda>c. c = a) (rev b))
      = replicate (length (takeWhile (\<lambda>c. c = a) (rev b))) a"
    by (metis takeWhile_eq_replicate rev_replicate)
  ultimately show ?thesis
    by (simp add: bytes_TrimRight_def)
qed

lemma bytes_TrimRight_last:
  "bytes_TrimRight b [a] = [] \<or> last (bytes_TrimRight b [a]) \<noteq> a"
proof -
  define d where "d = dropWhile (\<lambda>c. c = a) (rev b)"
  have eq: "bytes_TrimRight b [a] = rev d"
    by (simp add: bytes_TrimRight_def d_def)
  show ?thesis
  proof (cases "d = []")
    case True
    with eq show ?thesis by simp
  next
    case False
    then have "hd d \<noteq> a"
      unfolding d_def by (rule hd_dropWhile)
    moreover from False have "last (rev d) = hd d"
      by (simp add: last_rev)
    ultimately show ?thesis
      using eq by simp
  qed
qed

lemma bytes_TrimRight_stem:
  assumes "p = [] \<or> last p \<noteq> a"
  shows "bytes_TrimRight (p @ replicate k a) [a] = p"
proof -
  have "dropWhile (\<lambda>c. c = a) (replicate k a @ rev p) = rev p"
  proof (induction k)
    case 0
    from assms show ?case
      by (cases p rule: rev_cases) simp_all
  next
    case (Suc k)
    then show ?case by simp
  qed
  then show ?thesis
    by (simp add: bytes_TrimRight_def)
qed

lemmas ex_defs = mkObject_def ex_certificate_def ex_crd_def ex_service_def
  ex_setOpenShiftAnnotations_def ex_metal3_def ex_aws_def ex_unicodeLower_def
  ex_deployment_nonascii_def

lemmas resolver_defs = findWebhookServiceSecretName_def findWebhookServiceSecretName_obj_def
  recordInjection_def secretFromCertNN_def conversionServiceName_def firstWebhookServiceName_def

lemmas spec_defs = certificateBinding_def injectionResolves_def isInjectionTarget_def
  resolvesToSecret_def decodedCertName_def hasServiceReference_def

subsection \<open>\<^verbatim>\<open>strings.Split\<close>\<close>

lemma strings_Split_not_Nil: "strings_Split s sep \<noteq> []"
  by (induction s) (auto split: list.splits)

lemma strings_Split_no_sep: "sep \<notin> set s \<Longrightarrow> strings_Split s sep = [s]"
  by (induction s) auto

lemma strings_Split_append:
  "strings_Split (a @ sep # b) sep = strings_Split a sep @ strings_Split b sep"
  by (induction a) (auto split: list.splits simp: strings_Split_not_Nil)

lemma strings_Split_first:
  "sep \<notin> set a \<Longrightarrow> strings_Split (a @ sep # b) sep = a # strings_Split b sep"
  by (simp add: strings_Split_append strings_Split_no_sep)

lemma hd_strings_Split: "hd (strings_Split s sep) = takeWhile (\<lambda>c. c \<noteq> sep) s"
  by (induction s) (auto split: list.splits simp: strings_Split_not_Nil)

lemma last_strings_Split:
  "last (strings_Split s sep) = rev (takeWhile (\<lambda>c. c \<noteq> sep) (rev s))"
proof (cases "sep \<in> set s")
  case False
  then have "takeWhile (\<lambda>c. c \<noteq> sep) (rev s) = rev s"
    by (auto simp: takeWhile_eq_all_conv)
  then have "rev (takeWhile (\<lambda>c. c \<noteq> sep) (rev s)) = s"
    by (simp only: rev_rev_ident)
  moreover from False have "last (strings_Split s sep) = s"
    by (simp add: strings_Split_no_sep)
  ultimately show ?thesis
    by (simp only:)
next
  case True
  then obtain a b where s: "s = a @ sep # b" and b: "sep \<notin> set b"
    by (meson split_list_last)
  have "rev s = rev b @ sep # rev a"
    by (simp add: s)
  moreover have "takeWhile (\<lambda>c. c \<noteq> sep) (rev b @ sep # rev a) = rev b"
    using b by (auto simp: takeWhile_append2 takeWhile_tail)
  ultimately have "rev (takeWhile (\<lambda>c. c \<noteq> sep) (rev s)) = b"
    by simp
  moreover have "last (strings_Split s sep) = b"
    using b by (simp add: s strings_Split_append strings_Split_no_sep)
  ultimately show ?thesis by simp
qed

lemma secretFromCertNN_no_sep:
  "CHR ''/'' \<notin> set certNN \<Longrightarrow> secretFromCertNN certs certNN = Inl IndexOutOfRange"
  by (simp add: secretFromCertNN_def strings_Split_no_sep)

lemma secretFromCertNN_qualified:
  assumes "CHR ''/'' \<notin> set ns"
  shows "secretFromCertNN certs (ns @ CHR ''/'' # cn) =
     (case certs (takeWhile (\<lambda>c. c \<noteq> CHR ''/'') cn) of
        None \<Rightarrow> Inr ('''', False)
      | Some secretName \<Rightarrow> if secretName = '''' then Inr ('''', False) else Inr (secretName, True))"
proof -
  obtain w ws where sp: "strings_Split cn CHR ''/'' = w # ws"
    by (meson strings_Split_not_Nil list.exhaust)
  then have "w = takeWhile (\<lambda>c. c \<noteq> CHR ''/'') cn"
    by (metis hd_strings_Split list.sel(1))
  with sp assms show ?thesis
    by (simp add: secretFromCertNN_def strings_Split_first)
qed

subsection \<open>The resolver\<close>

lemma findWebhookServiceSecretName_certs_fold:
  "findWebhookServiceSecretName_certs objs m =
     (if \<forall>obj\<in>set objs. GetKind obj = ''Certificate'' \<longrightarrow> Convert_ok obj
      then Inr (fold (\<lambda>obj m. if GetKind obj = ''Certificate''
                    then m(GetName obj \<mapsto> Spec_SecretName obj) else m) objs m)
      else Inl ConvertError)"
  by (induction objs arbitrary: m) auto

lemma secretFromCertNN_resolves:
  "resolvesToSecret certs certNN \<longleftrightarrow> (\<exists>s. secretFromCertNN certs certNN = Inr (s, True))"
  by (auto simp: resolvesToSecret_def decodedCertName_def secretFromCertNN_def
      split: list.splits option.splits)

lemma secretFromCertNN_cases:
  "secretFromCertNN certs certNN = Inl IndexOutOfRange
   \<or> secretFromCertNN certs certNN = Inr ('''', False)
   \<or> (\<exists>s. s \<noteq> '''' \<and> secretFromCertNN certs certNN = Inr (s, True))"
  by (auto simp: secretFromCertNN_def split: list.splits option.splits)

lemma recordInjection_ok:
  "(\<exists>m'. recordInjection certs obj svc m = Inr m') \<longleftrightarrow>
     (Convert_ok obj \<and>
       (case GetAnnotations obj inject_ca_from of
          None \<Rightarrow> True
        | Some certNN \<Rightarrow> resolvesToSecret certs certNN \<and> (\<exists>s. svc = Inr s)))"
  using secretFromCertNN_cases [of certs "the (GetAnnotations obj inject_ca_from)"]
  by (cases svc)
     (auto simp: recordInjection_def secretFromCertNN_resolves split: option.splits sum.splits)

lemma conversionServiceName_ok:
  "(\<exists>s. conversionServiceName obj = Inr s) \<longleftrightarrow> Conversion_Service obj \<noteq> None"
  by (auto simp: conversionServiceName_def split: option.splits)

lemma firstWebhookServiceName_ok:
  "(\<exists>s. firstWebhookServiceName obj = Inr s) \<longleftrightarrow>
     (case Webhooks_Service obj of Some _ # _ \<Rightarrow> True | _ \<Rightarrow> False)"
  by (auto simp: firstWebhookServiceName_def split: option.splits list.splits)

lemma findWebhookServiceSecretName_obj_ok:
  "(\<exists>m'. findWebhookServiceSecretName_obj certs obj m = Inr m') \<longleftrightarrow> resolverStepOk certs obj"
  unfolding findWebhookServiceSecretName_obj_def resolverStepOk_def isInjectionTarget_def
    hasServiceReference_def
  by (simp add: recordInjection_ok conversionServiceName_ok firstWebhookServiceName_ok
      split: option.splits)

lemma findWebhookServiceSecretName_services_ok:
  "(\<exists>m'. findWebhookServiceSecretName_services certs objs m = Inr m') \<longleftrightarrow>
     (\<forall>obj\<in>set objs. resolverStepOk certs obj)"
proof (induction objs arbitrary: m)
  case Nil
  then show ?case by simp
next
  case (Cons obj objs)
  show ?case
  proof (cases "findWebhookServiceSecretName_obj certs obj m")
    case (Inl e)
    then have "\<not> resolverStepOk certs obj"
      by (metis findWebhookServiceSecretName_obj_ok sum.distinct(1))
    with Inl show ?thesis by simp
  next
    case (Inr m1)
    then have "resolverStepOk certs obj"
      by (metis findWebhookServiceSecretName_obj_ok)
    with Inr Cons.IH [of m1] show ?thesis by simp
  qed
qed

lemma findWebhookServiceSecretName_ok:
  "(\<exists>m. findWebhookServiceSecretName objs = Inr m) \<longleftrightarrow>
     ((\<forall>obj\<in>set objs. GetKind obj = ''Certificate'' \<longrightarrow> Convert_ok obj)
      \<and> (\<forall>obj\<in>set objs. resolverStepOk (certificateBinding objs) obj))"
  by (simp add: findWebhookServiceSecretName_def findWebhookServiceSecretName_certs_fold
      certificateBinding_def findWebhookServiceSecretName_services_ok)

lemma not_Inr_is_Inl: "(\<forall>m. x \<noteq> Inr m) \<longleftrightarrow> (\<exists>e. x = Inl e)"
  by (cases x) auto

lemmas pipeline_defs = importProviders_streams_def certManagerToServiceCA_def splitRBACOut_def
  filterOutIPAM_def strings_ToLower_def isASCII_def toLowerByte_def

lemmas route_defs = route_def isDroppedKind_def isRBAC_def isIPAM_def claimedDropped_def
  strings_ToLower_def isASCII_def toLowerByte_def

subsection \<open>The rewrite, the partitioner and the filter as maps and filters\<close>

lemma certManagerToServiceCA_loop_map:
  "certManagerToServiceCA_loop m objs finalObjs =
     finalObjs @ map (rewriteObject m) (filter (\<lambda>obj. \<not> isDroppedKind obj) objs)"
  by (induction objs arbitrary: finalObjs)
     (auto simp: rewriteObject_def isDroppedKind_def isInjectionTarget_def split: option.splits)

lemma certManagerToServiceCA_map:
  "findWebhookServiceSecretName objs = Inr m \<Longrightarrow>
     certManagerToServiceCA objs =
       Inr (map (rewriteObject m) (filter (\<lambda>obj. \<not> isDroppedKind obj) objs))"
  by (simp add: certManagerToServiceCA_def certManagerToServiceCA_loop_map)

lemma rewriteObject_kind [simp]: "GetKind (rewriteObject m obj) = GetKind obj"
  by (simp add: rewriteObject_def split: option.splits)

lemma rewriteObject_name [simp]: "GetName (rewriteObject m obj) = GetName obj"
  by (simp add: rewriteObject_def split: option.splits)

lemma rewriteObject_isRBAC [simp]: "isRBAC (rewriteObject m obj) = isRBAC obj"
  by (simp add: isRBAC_def)

lemma rewriteObject_isIPAM [simp]: "isIPAM unicodeLower (rewriteObject m obj) = isIPAM unicodeLower obj"
  by (simp add: isIPAM_def)

lemma rewriteObject_isDroppedKind [simp]: "isDroppedKind (rewriteObject m obj) = isDroppedKind obj"
  by (simp add: isDroppedKind_def)

lemma rewriteObject_RBAC: "isRBAC obj \<Longrightarrow> rewriteObject m obj = obj"
  by (auto simp: rewriteObject_def isRBAC_def isInjectionTarget_def)

lemma rewriteObject_spec:
  "(let obj' = rewriteObject m obj in
     if isInjectionTarget obj \<and> GetAnnotations obj inject_ca_from \<noteq> None then
        obj'\<lparr>GetAnnotations := GetAnnotations obj\<rparr> = obj
        \<and> GetAnnotations obj' inject_ca_from = None
        \<and> GetAnnotations obj' inject_cabundle = Some ''true''
        \<and> (\<forall>k. k \<noteq> inject_ca_from \<and> k \<noteq> inject_cabundle
              \<longrightarrow> GetAnnotations obj' k = GetAnnotations obj k)
     else if GetKind obj = ''Service'' \<and> m (GetName obj) \<noteq> None then
        obj'\<lparr>GetAnnotations := GetAnnotations obj\<rparr> = obj
        \<and> GetAnnotations obj' serving_cert_secret_name = m (GetName obj)
        \<and> (\<forall>k. k \<noteq> serving_cert_secret_name \<longrightarrow> GetAnnotations obj' k = GetAnnotations obj k)
     else obj' = obj)"
  by (auto simp: rewriteObject_def Let_def split: option.splits)

lemma splitRBACOut_loop_eq:
  "splitRBACOut_loop ann objs finalObjs rbacObjs =
     (finalObjs @ filter (\<lambda>obj. \<not> isRBAC obj) objs,
      rbacObjs @ map (\<lambda>obj. ann obj False) (filter isRBAC objs))"
  by (induction objs arbitrary: finalObjs rbacObjs) (auto simp: isRBAC_def)

lemma splitRBACOut_eq:
  "splitRBACOut ann objs =
     (filter (\<lambda>obj. \<not> isRBAC obj) objs, map (\<lambda>obj. ann obj False) (filter isRBAC objs))"
  by (simp add: splitRBACOut_def splitRBACOut_loop_eq)

lemma filterOutIPAM_loop_eq:
  "filterOutIPAM_loop unicodeLower objs finalObjs = finalObjs @ filter (\<lambda>obj. \<not> isIPAM unicodeLower obj) objs"
  by (induction objs arbitrary: finalObjs) (auto simp: isIPAM_def)

lemma filterOutIPAM_eq: "filterOutIPAM unicodeLower objs = filter (\<lambda>obj. \<not> isIPAM unicodeLower obj) objs"
  by (simp add: filterOutIPAM_def filterOutIPAM_loop_eq)

lemma strings_Contains_sublist: "strings_Contains s substr \<longleftrightarrow> sublist substr s"
  by (induction s) (auto simp: sublist_Cons_right)

lemma length_filter_three:
  "length (filter (\<lambda>x. f x = CoreStream) xs) + length (filter (\<lambda>x. f x = RBACStream) xs)
     + length (filter (\<lambda>x. f x = Dropped) xs) = length xs"
proof (induction xs)
  case Nil
  then show ?case by simp
next
  case (Cons x xs)
  then show ?case by (cases "f x") simp_all
qed

subsection \<open>The catalog update\<close>

lemma updateImages_containers_lookup:
  "updateImages_containers unicodeLower p imgs m k =
     (if k \<in> set (map (imageToKey unicodeLower p) imgs)
      then Some (last (filter (\<lambda>i. imageToKey unicodeLower p i = k) imgs))
      else m k)"
proof (induction imgs arbitrary: m)
  case Nil
  then show ?case by simp
next
  case (Cons img imgs)
  show ?case
  proof (cases "k \<in> set (map (imageToKey unicodeLower p) imgs)")
    case True
    then have "filter (\<lambda>i. imageToKey unicodeLower p i = k) imgs \<noteq> []"
      by (auto simp: filter_empty_conv)
    with True show ?thesis
      by (simp add: Cons.IH)
  next
    case False
    then have "filter (\<lambda>i. imageToKey unicodeLower p i = k) imgs = []"
      by (auto simp: filter_empty_conv)
    with False show ?thesis
      by (auto simp: Cons.IH)
  qed
qed

lemma updateImages_containers_append:
  "updateImages_containers unicodeLower p (a @ b) m = updateImages_containers unicodeLower p b (updateImages_containers unicodeLower p a m)"
  by (induction a arbitrary: m) simp_all

lemma updateImages_loop_eq:
  "\<forall>obj\<in>set objs. GetKind obj = ''Deployment'' \<longrightarrow> Convert_ok obj \<Longrightarrow>
     updateImages_loop unicodeLower p objs m = Inr (updateImages_containers unicodeLower p (deploymentImages objs) m)"
  by (induction objs arbitrary: m)
     (simp_all add: deploymentImages_def updateImages_containers_append)

section \<open>Claims\<close>

text \<open>
  C1 (amended). When the resolver returns the mapping \<open>serviceSecretNames\<close>, the rewrite
  returns an output that holds, in input order, one object for each input object that is
  not a Certificate, Issuer or Namespace, and no object of these kinds. An injection target
  that carried the injection annotation differs from its input only in its annotations:
  the injection key is gone, the CA-bundle key is \<open>true\<close>, every other key is as before.
  A Service whose name is in the mapping differs only in its annotations: the
  serving-certificate key is the resolved secret name, every other key is as before.
  Every other object is the input object.
\<close>

theorem certManagerToServiceCA_rewrite:
  assumes "findWebhookServiceSecretName objs = Inr serviceSecretNames"
  shows "\<exists>out. certManagerToServiceCA objs = Inr out
      \<and> length out = length (filter (\<lambda>obj. \<not> isDroppedKind obj) objs)
      \<and> (\<forall>i<length out.
           let obj = filter (\<lambda>obj. \<not> isDroppedKind obj) objs ! i; obj' = out ! i in
             if isInjectionTarget obj \<and> GetAnnotations obj inject_ca_from \<noteq> None then
               obj'\<lparr>GetAnnotations := GetAnnotations obj\<rparr> = obj
               \<and> GetAnnotations obj' inject_ca_from = None
               \<and> GetAnnotations obj' inject_cabundle = Some ''true''
               \<and> (\<forall>k. k \<noteq> inject_ca_from \<and> k \<noteq> inject_cabundle
                     \<longrightarrow> GetAnnotations obj' k = GetAnnotations obj k)
             else if GetKind obj = ''Service'' \<and> serviceSecretNames (GetName obj) \<noteq> None then
               obj'\<lparr>GetAnnotations := GetAnnotations obj\<rparr> = obj
               \<and> GetAnnotations obj' serving_cert_secret_name = serviceSecretNames (GetName obj)
               \<and> (\<forall>k. k \<noteq> serving_cert_secret_name
                     \<longrightarrow> GetAnnotations obj' k = GetAnnotations obj k)
             else obj' = obj)
      \<and> (\<forall>obj'\<in>set out. \<not> isDroppedKind obj')"
proof -
  define kept where "kept = filter (\<lambda>obj. \<not> isDroppedKind obj) objs"
  define out where "out = map (rewriteObject serviceSecretNames) kept"
  have res: "certManagerToServiceCA objs = Inr out"
    unfolding out_def kept_def using assms by (rule certManagerToServiceCA_map)
  have len: "length out = length kept"
    by (simp add: out_def)
  have nth: "out ! i = rewriteObject serviceSecretNames (kept ! i)" if "i < length out" for i
    using that by (simp add: out_def)
  have each: "let obj = kept ! i; obj' = out ! i in
             if isInjectionTarget obj \<and> GetAnnotations obj inject_ca_from \<noteq> None then
               obj'\<lparr>GetAnnotations := GetAnnotations obj\<rparr> = obj
               \<and> GetAnnotations obj' inject_ca_from = None
               \<and> GetAnnotations obj' inject_cabundle = Some ''true''
               \<and> (\<forall>k. k \<noteq> inject_ca_from \<and> k \<noteq> inject_cabundle
                     \<longrightarrow> GetAnnotations obj' k = GetAnnotations obj k)
             else if GetKind obj = ''Service'' \<and> serviceSecretNames (GetName obj) \<noteq> None then
               obj'\<lparr>GetAnnotations := GetAnnotations obj\<rparr> = obj
               \<and> GetAnnotations obj' serving_cert_secret_name = serviceSecretNames (GetName obj)
               \<and> (\<forall>k. k \<noteq> serving_cert_secret_name
                     \<longrightarrow> GetAnnotations obj' k = GetAnnotations obj k)
             else obj' = obj" if "i < length out" for i
    using rewriteObject_spec [of serviceSecretNames "kept ! i"]
    unfolding Let_def nth [OF that] .
  have absent: "\<forall>obj'\<in>set out. \<not> isDroppedKind obj'"
    by (auto simp: out_def kept_def)
  from res len each absent show ?thesis
    unfolding kept_def by blast
qed

theorem certManagerToServiceCA_rewrite_witness:
  "\<exists>out. certManagerToServiceCA [ex_certificate, ex_crd, ex_service] = Inr out
      \<and> length out = 2
      \<and> GetKind (out ! 0) = ''CustomResourceDefinition''
      \<and> GetAnnotations (out ! 0) inject_ca_from = None
      \<and> GetAnnotations (out ! 0) inject_cabundle = Some ''true''
      \<and> GetKind (out ! 1) = ''Service''
      \<and> GetAnnotations (out ! 1) serving_cert_secret_name = Some ''s1''"
proof -
  let ?exs = "[ex_certificate, ex_crd, ex_service]"
  have res: "findWebhookServiceSecretName ?exs = Inr [''svc1'' \<mapsto> ''s1'']"
    by (simp add: resolver_defs ex_defs)
  have kept: "filter (\<lambda>obj. \<not> isDroppedKind obj) ?exs = [ex_crd, ex_service]"
    by (simp add: isDroppedKind_def ex_defs)
  from certManagerToServiceCA_rewrite [OF res]
  obtain out where out: "certManagerToServiceCA ?exs = Inr out"
    and len: "length out = length (filter (\<lambda>obj. \<not> isDroppedKind obj) ?exs)"
    and each: "\<And>i. i < length out \<Longrightarrow>
           (let obj = filter (\<lambda>obj. \<not> isDroppedKind obj) ?exs ! i; obj' = out ! i in
             if isInjectionTarget obj \<and> GetAnnotations obj inject_ca_from \<noteq> None then
               obj'\<lparr>GetAnnotations := GetAnnotations obj\<rparr> = obj
               \<and> GetAnnotations obj' inject_ca_from = None
               \<and> GetAnnotations obj' inject_cabundle = Some ''true''
               \<and> (\<forall>k. k \<noteq> inject_ca_from \<and> k \<noteq> inject_cabundle
                     \<longrightarrow> GetAnnotations obj' k = GetAnnotations obj k)
             else if GetKind obj = ''Service''
                   \<and> [''svc1'' \<mapsto> ''s1''] (GetName obj) \<noteq> None then
               obj'\<lparr>GetAnnotations := GetAnnotations obj\<rparr> = obj
               \<and> GetAnnotations obj' serving_cert_secret_name = [''svc1'' \<mapsto> ''s1''] (GetName obj)
               \<and> (\<forall>k. k \<noteq> serving_cert_secret_name
                     \<longrightarrow> GetAnnotations obj' k = GetAnnotations obj k)
             else obj' = obj)"
    by blast
  from len have len2: "length out = 2"
    by (simp only: kept) simp
  have crd: "(out ! 0)\<lparr>GetAnnotations := GetAnnotations ex_crd\<rparr> = ex_crd
      \<and> GetAnnotations (out ! 0) inject_ca_from = None
      \<and> GetAnnotations (out ! 0) inject_cabundle = Some ''true''"
    using each [of 0] len2 unfolding kept
    by (simp add: Let_def isInjectionTarget_def ex_crd_def mkObject_def)
  have svc: "(out ! 1)\<lparr>GetAnnotations := GetAnnotations ex_service\<rparr> = ex_service
      \<and> GetAnnotations (out ! 1) serving_cert_secret_name = Some ''s1''"
    using each [of 1] len2 unfolding kept
    by (simp add: Let_def isInjectionTarget_def ex_service_def mkObject_def)
  have "GetKind ((out ! 0)\<lparr>GetAnnotations := GetAnnotations ex_crd\<rparr>) = GetKind ex_crd"
    using crd by (simp only:)
  then have k0: "GetKind (out ! 0) = ''CustomResourceDefinition''"
    by (simp add: ex_crd_def mkObject_def)
  have "GetKind ((out ! 1)\<lparr>GetAnnotations := GetAnnotations ex_service\<rparr>) = GetKind ex_service"
    using svc by (simp only:)
  then have k1: "GetKind (out ! 1) = ''Service''"
    by (simp add: ex_service_def mkObject_def)
  from out len2 crd svc k0 k1 show ?thesis
    by blast
qed

text \<open>
  The claim as stated fails: it promises an output for every input set, and the rewrite
  calls the resolver first. For the example's CustomResourceDefinition and Service
  without the Certificate the resolver panics, and the rewrite produces no output.
\<close>

theorem certManagerToServiceCA_rewrite_counterexample:
  "certManagerToServiceCA [ex_crd, ex_service] = Inl (CantFindSecret ''ns/c1'')"
  by (simp add: certManagerToServiceCA_def resolver_defs ex_defs)

text \<open>
  C2 (amended). If a CustomResourceDefinition, MutatingWebhookConfiguration or
  ValidatingWebhookConfiguration of the set carries the injection annotation and the
  certificate name decoded from it has no entry in the certificate binding of the set, or
  an empty one, then the resolver fails and returns no mapping; at that object, once it is
  converted, the failure is the panic \<open>CantFindSecret\<close> of the integrity check. Conversely,
  if every Certificate and every injection target of the set converts, every carried
  injection annotation resolves to a non-empty secret name, and every object carrying one
  has the service reference the resolver records, then the resolver returns a mapping.
\<close>

theorem findWebhookServiceSecretName_integrity:
  "((\<exists>obj\<in>set objs. \<exists>certNN certName.
        isInjectionTarget obj \<and> GetAnnotations obj inject_ca_from = Some certNN
        \<and> decodedCertName certNN = Some certName
        \<and> (certificateBinding objs certName = None \<or> certificateBinding objs certName = Some ''''))
      \<longrightarrow> (\<exists>e. findWebhookServiceSecretName objs = Inl e))
   \<and> (\<forall>obj certNN certName m.
        isInjectionTarget obj \<and> Convert_ok obj \<and> GetAnnotations obj inject_ca_from = Some certNN
        \<and> decodedCertName certNN = Some certName
        \<and> (certs certName = None \<or> certs certName = Some '''')
      \<longrightarrow> findWebhookServiceSecretName_obj certs obj m = Inl (CantFindSecret certNN))
   \<and> ((\<forall>obj\<in>set objs. GetKind obj = ''Certificate'' \<or> isInjectionTarget obj \<longrightarrow> Convert_ok obj)
       \<and> (\<forall>obj\<in>set objs. injectionResolves (certificateBinding objs) obj)
       \<and> (\<forall>obj\<in>set objs. isInjectionTarget obj \<and> GetAnnotations obj inject_ca_from \<noteq> None
             \<longrightarrow> hasServiceReference obj)
      \<longrightarrow> (\<exists>m. findWebhookServiceSecretName objs = Inr m))"
proof (intro conjI impI allI)
  assume "\<exists>obj\<in>set objs. \<exists>certNN certName.
        isInjectionTarget obj \<and> GetAnnotations obj inject_ca_from = Some certNN
        \<and> decodedCertName certNN = Some certName
        \<and> (certificateBinding objs certName = None \<or> certificateBinding objs certName = Some '''')"
  then obtain obj certNN certName where obj: "obj \<in> set objs" "isInjectionTarget obj"
      "GetAnnotations obj inject_ca_from = Some certNN"
      "decodedCertName certNN = Some certName"
      "certificateBinding objs certName = None \<or> certificateBinding objs certName = Some ''''"
    by blast
  from obj(4,5) have "\<not> resolvesToSecret (certificateBinding objs) certNN"
    by (auto simp: resolvesToSecret_def)
  with obj(2,3) have "\<not> resolverStepOk (certificateBinding objs) obj"
    by (simp add: resolverStepOk_def)
  with obj(1) have "\<not> (\<exists>m. findWebhookServiceSecretName objs = Inr m)"
    unfolding findWebhookServiceSecretName_ok by blast
  then show "\<exists>e. findWebhookServiceSecretName objs = Inl e"
    by (simp add: not_Inr_is_Inl)
next
  fix obj certNN certName m
  assume a: "isInjectionTarget obj \<and> Convert_ok obj \<and> GetAnnotations obj inject_ca_from = Some certNN
        \<and> decodedCertName certNN = Some certName
        \<and> (certs certName = None \<or> certs certName = Some '''')"
  then have "secretFromCertNN certs certNN = Inr ('''', False)"
    by (auto simp: secretFromCertNN_def decodedCertName_def split: list.splits)
  with a show "findWebhookServiceSecretName_obj certs obj m = Inl (CantFindSecret certNN)"
    by (auto simp: findWebhookServiceSecretName_obj_def isInjectionTarget_def recordInjection_def)
next
  assume a: "(\<forall>obj\<in>set objs. GetKind obj = ''Certificate'' \<or> isInjectionTarget obj \<longrightarrow> Convert_ok obj)
       \<and> (\<forall>obj\<in>set objs. injectionResolves (certificateBinding objs) obj)
       \<and> (\<forall>obj\<in>set objs. isInjectionTarget obj \<and> GetAnnotations obj inject_ca_from \<noteq> None
             \<longrightarrow> hasServiceReference obj)"
  have "resolverStepOk (certificateBinding objs) obj" if "obj \<in> set objs" for obj
    using a that
    by (fastforce simp: resolverStepOk_def injectionResolves_def split: option.splits)
  with a show "\<exists>m. findWebhookServiceSecretName objs = Inr m"
    unfolding findWebhookServiceSecretName_ok by blast
qed

text \<open>
  The amended claim at concrete inputs: without the Certificate the example's
  CustomResourceDefinition makes the resolver panic; with it the resolver returns the
  mapping of \<open>svc1\<close> to \<open>s1\<close>.
\<close>

theorem findWebhookServiceSecretName_integrity_witness:
  "findWebhookServiceSecretName [ex_crd, ex_service] = Inl (CantFindSecret ''ns/c1'')
   \<and> (\<exists>m. findWebhookServiceSecretName [ex_certificate, ex_crd, ex_service] = Inr m
          \<and> m ''svc1'' = Some ''s1'')"
proof -
  have fails: "\<exists>e. findWebhookServiceSecretName [ex_crd, ex_service] = Inl e"
  proof -
    have "\<exists>obj\<in>set [ex_crd, ex_service]. \<exists>certNN certName.
        isInjectionTarget obj \<and> GetAnnotations obj inject_ca_from = Some certNN
        \<and> decodedCertName certNN = Some certName
        \<and> (certificateBinding [ex_crd, ex_service] certName = None
            \<or> certificateBinding [ex_crd, ex_service] certName = Some '''')"
      by (simp add: spec_defs ex_defs)
    with findWebhookServiceSecretName_integrity [of "[ex_crd, ex_service]"]
    show ?thesis by blast
  qed
  have "findWebhookServiceSecretName [ex_crd, ex_service] = Inl (CantFindSecret ''ns/c1'')"
    by (simp add: resolver_defs ex_defs)
  moreover have "\<exists>m. findWebhookServiceSecretName [ex_certificate, ex_crd, ex_service] = Inr m"
  proof -
    have "(\<forall>obj\<in>set [ex_certificate, ex_crd, ex_service].
              GetKind obj = ''Certificate'' \<or> isInjectionTarget obj \<longrightarrow> Convert_ok obj)
       \<and> (\<forall>obj\<in>set [ex_certificate, ex_crd, ex_service].
              injectionResolves (certificateBinding [ex_certificate, ex_crd, ex_service]) obj)
       \<and> (\<forall>obj\<in>set [ex_certificate, ex_crd, ex_service].
              isInjectionTarget obj \<and> GetAnnotations obj inject_ca_from \<noteq> None
             \<longrightarrow> hasServiceReference obj)"
      by (simp add: spec_defs ex_defs)
    with findWebhookServiceSecretName_integrity [of "[ex_certificate, ex_crd, ex_service]"]
    show ?thesis by blast
  qed
  moreover have "findWebhookServiceSecretName [ex_certificate, ex_crd, ex_service]
      = Inr [''svc1'' \<mapsto> ''s1'']"
    by (simp add: resolver_defs ex_defs)
  ultimately show ?thesis
    using fails by simp
qed

text \<open>
  The claim as stated fails: in both sets every carried injection annotation resolves to
  the non-empty secret \<open>s1\<close>, and the resolver still fails, on the object that does not
  convert (\<^verbatim>\<open>panic(err)\<close>) and on the CustomResourceDefinition that has no conversion
  webhook service.
\<close>

theorem findWebhookServiceSecretName_integrity_counterexample:
  "list_all (injectionResolves
       (certificateBinding [ex_certificate, ex_crd\<lparr>Convert_ok := False\<rparr>]))
     [ex_certificate, ex_crd\<lparr>Convert_ok := False\<rparr>]
   \<and> findWebhookServiceSecretName [ex_certificate, ex_crd\<lparr>Convert_ok := False\<rparr>]
       = Inl ConvertError
   \<and> list_all (injectionResolves
       (certificateBinding [ex_certificate, ex_crd\<lparr>Conversion_Service := None\<rparr>]))
     [ex_certificate, ex_crd\<lparr>Conversion_Service := None\<rparr>]
   \<and> findWebhookServiceSecretName [ex_certificate, ex_crd\<lparr>Conversion_Service := None\<rparr>]
       = Inl NilPointerDereference"
  by (simp add: spec_defs resolver_defs ex_defs)

text \<open>
  C3. The component filter keeps, in order, exactly the objects that are a
  CustomResourceDefinition or whose lower-cased name does not contain \<open>ipam\<close>; so it
  keeps every CustomResourceDefinition. The pipeline applies it to the core stream for
  the provider named \<open>metal3\<close>, and for every other provider the streams are those of the
  partitioner, unfiltered. The lower-cased name is \<^verbatim>\<open>strings.ToLower\<close> of the name: the
  statement holds for every name, whatever the Unicode lower-casing \<open>unicodeLower\<close> makes
  of a name with bytes beyond ASCII. The evaluation after it includes a Deployment named
  U+0130 followed by \<open>PAM\<close>, which lower-cases to \<open>ipam\<close> and is removed for \<open>metal3\<close>.
\<close>

theorem filterOutIPAM_keeps_crds:
  "filterOutIPAM unicodeLower objs =
     filter (\<lambda>obj. GetKind obj = ''CustomResourceDefinition''
                 \<or> \<not> sublist ''ipam'' (strings_ToLower unicodeLower (GetName obj))) objs
   \<and> (\<forall>obj\<in>set objs. GetKind obj = ''CustomResourceDefinition'' \<longrightarrow> obj \<in> set (filterOutIPAM unicodeLower objs))
   \<and> (name p = ''metal3'' \<longrightarrow>
        importProviders_streams unicodeLower setOpenShiftAnnotations p objs =
          (case certManagerToServiceCA objs of
             Inl e \<Rightarrow> Inl e
           | Inr rewritten \<Rightarrow>
               Inr (filterOutIPAM unicodeLower (fst (splitRBACOut setOpenShiftAnnotations rewritten)),
                    snd (splitRBACOut setOpenShiftAnnotations rewritten))))
   \<and> (name p \<noteq> ''metal3'' \<longrightarrow>
        importProviders_streams unicodeLower setOpenShiftAnnotations p objs =
          (case certManagerToServiceCA objs of
             Inl e \<Rightarrow> Inl e
           | Inr rewritten \<Rightarrow> Inr (splitRBACOut setOpenShiftAnnotations rewritten)))"
proof -
  have keep: "(\<lambda>obj. \<not> isIPAM unicodeLower obj) =
      (\<lambda>obj. GetKind obj = ''CustomResourceDefinition''
                 \<or> \<not> sublist ''ipam'' (strings_ToLower unicodeLower (GetName obj)))"
    by (auto simp: isIPAM_def strings_Contains_sublist fun_eq_iff)
  have f: "filterOutIPAM unicodeLower objs =
     filter (\<lambda>obj. GetKind obj = ''CustomResourceDefinition''
                 \<or> \<not> sublist ''ipam'' (strings_ToLower unicodeLower (GetName obj))) objs"
    by (simp only: filterOutIPAM_eq keep)
  have crd: "\<forall>obj\<in>set objs. GetKind obj = ''CustomResourceDefinition'' \<longrightarrow> obj \<in> set (filterOutIPAM unicodeLower objs)"
    by (simp add: f)
  have metal3: "name p = ''metal3'' \<longrightarrow>
        importProviders_streams unicodeLower setOpenShiftAnnotations p objs =
          (case certManagerToServiceCA objs of
             Inl e \<Rightarrow> Inl e
           | Inr rewritten \<Rightarrow>
               Inr (filterOutIPAM unicodeLower (fst (splitRBACOut setOpenShiftAnnotations rewritten)),
                    snd (splitRBACOut setOpenShiftAnnotations rewritten)))"
    by (simp add: importProviders_streams_def split: sum.splits prod.splits)
  have other: "name p \<noteq> ''metal3'' \<longrightarrow>
        importProviders_streams unicodeLower setOpenShiftAnnotations p objs =
          (case certManagerToServiceCA objs of
             Inl e \<Rightarrow> Inl e
           | Inr rewritten \<Rightarrow> Inr (splitRBACOut setOpenShiftAnnotations rewritten))"
    by (simp add: importProviders_streams_def split: sum.splits prod.splits)
  from f crd metal3 other show ?thesis
    by (intro conjI)
qed

theorem filterOutIPAM_keeps_crds_witness:
  "filterOutIPAM ex_unicodeLower
       [mkObject ''CustomResourceDefinition'' ''ipaddresses.ipam.metal3.io'',
        mkObject ''Deployment'' ''capm3-IPAM-controller'',
        ex_deployment_nonascii, ex_service]
     = [mkObject ''CustomResourceDefinition'' ''ipaddresses.ipam.metal3.io'', ex_service]
   \<and> importProviders_streams ex_unicodeLower ex_setOpenShiftAnnotations ex_metal3
       [mkObject ''CustomResourceDefinition'' ''ipaddresses.ipam.metal3.io'',
        mkObject ''Deployment'' ''capm3-IPAM-controller'',
        ex_deployment_nonascii, ex_service]
     = Inr ([mkObject ''CustomResourceDefinition'' ''ipaddresses.ipam.metal3.io'', ex_service], [])
   \<and> importProviders_streams ex_unicodeLower ex_setOpenShiftAnnotations ex_aws
       [mkObject ''CustomResourceDefinition'' ''ipaddresses.ipam.metal3.io'',
        mkObject ''Deployment'' ''capm3-IPAM-controller'',
        ex_deployment_nonascii, ex_service]
     = Inr ([mkObject ''CustomResourceDefinition'' ''ipaddresses.ipam.metal3.io'',
             mkObject ''Deployment'' ''capm3-IPAM-controller'',
        ex_deployment_nonascii, ex_service], [])"
proof -
  let ?exs = "[mkObject ''CustomResourceDefinition'' ''ipaddresses.ipam.metal3.io'',
        mkObject ''Deployment'' ''capm3-IPAM-controller'',
        ex_deployment_nonascii, ex_service]"
  have rw: "certManagerToServiceCA ?exs = Inr ?exs"
    by (simp add: certManagerToServiceCA_def resolver_defs ex_defs)
  have sp: "splitRBACOut ex_setOpenShiftAnnotations ?exs = (?exs, [])"
    by (simp add: splitRBACOut_def ex_defs)
  have fl: "filterOutIPAM ex_unicodeLower ?exs
      = [mkObject ''CustomResourceDefinition'' ''ipaddresses.ipam.metal3.io'', ex_service]"
    by (simp add: filterOutIPAM_def strings_ToLower_def isASCII_def toLowerByte_def ex_defs)
  have m: "name ex_metal3 = ''metal3''" and a: "name ex_aws \<noteq> ''metal3''"
    by (simp_all add: ex_metal3_def ex_aws_def)
  from filterOutIPAM_keeps_crds [of ex_unicodeLower ?exs ex_metal3 ex_setOpenShiftAnnotations] m
  have "importProviders_streams ex_unicodeLower ex_setOpenShiftAnnotations ex_metal3 ?exs =
      (case certManagerToServiceCA ?exs of
             Inl e \<Rightarrow> Inl e
           | Inr rewritten \<Rightarrow>
               Inr (filterOutIPAM ex_unicodeLower (fst (splitRBACOut ex_setOpenShiftAnnotations rewritten)),
                    snd (splitRBACOut ex_setOpenShiftAnnotations rewritten)))"
    by blast
  then have s1: "importProviders_streams ex_unicodeLower ex_setOpenShiftAnnotations ex_metal3 ?exs
      = Inr ([mkObject ''CustomResourceDefinition'' ''ipaddresses.ipam.metal3.io'', ex_service], [])"
    by (simp only: rw sp fl sum.case fst_conv snd_conv)
  from filterOutIPAM_keeps_crds [of ex_unicodeLower ?exs ex_aws ex_setOpenShiftAnnotations] a
  have "importProviders_streams ex_unicodeLower ex_setOpenShiftAnnotations ex_aws ?exs =
      (case certManagerToServiceCA ?exs of
             Inl e \<Rightarrow> Inl e
           | Inr rewritten \<Rightarrow> Inr (splitRBACOut ex_setOpenShiftAnnotations rewritten))"
    by blast
  then have s2: "importProviders_streams ex_unicodeLower ex_setOpenShiftAnnotations ex_aws ?exs = Inr (?exs, [])"
    by (simp only: rw sp sum.case)
  from fl s1 s2 show ?thesis
    by (intro conjI)
qed

text \<open>
  C4 (amended). The image key is a function of the provider type, the provider name and
  the image reference (the version plays no part): the name is the trailing path segment
  of the reference up to its first \<^verbatim>\<open>":"\<close>; the name \<open>kube-rbac-proxy\<close> gives the key
  \<open>kube-rbac-proxy\<close>, the name \<open>ip-address-manager\<close> gives the provider type name, \<open>-\<close>,
  the provider name and \<open>:ip-address-manager\<close>, every other name gives the provider type
  name, \<open>-\<close>, the provider name and \<open>:manager\<close>. For the provider \<open>metal3\<close> of type
  \<open>InfrastructureProvider\<close> the three keys are \<open>kube-rbac-proxy\<close>,
  \<open>infrastructure-metal3:ip-address-manager\<close> and \<open>infrastructure-metal3:manager\<close>.
  The provider type name lower-cases the provider type by \<^verbatim>\<open>strings.ToLower\<close>; the
  statement holds for every Unicode lower-casing \<open>unicodeLower\<close>.
\<close>

theorem imageToKey_derivation:
  "imageToKey unicodeLower p fullImage =
     (let nm = takeWhile (\<lambda>c. c \<noteq> CHR '':'')
                 (rev (takeWhile (\<lambda>c. c \<noteq> CHR ''/'') (rev fullImage)))
      in if nm = ''kube-rbac-proxy'' then ''kube-rbac-proxy''
         else if nm = ''ip-address-manager''
           then providerTypeName unicodeLower p @ ''-'' @ name p @ '':ip-address-manager''
         else providerTypeName unicodeLower p @ ''-'' @ name p @ '':manager'')
   \<and> imageToKey unicodeLower (p\<lparr>version := v\<rparr>) fullImage = imageToKey unicodeLower p fullImage
   \<and> (name p = ''metal3'' \<and> ptype p = ''InfrastructureProvider'' \<longrightarrow>
        imageToKey unicodeLower p fullImage =
          (let nm = takeWhile (\<lambda>c. c \<noteq> CHR '':'')
                      (rev (takeWhile (\<lambda>c. c \<noteq> CHR ''/'') (rev fullImage)))
           in if nm = ''kube-rbac-proxy'' then ''kube-rbac-proxy''
              else if nm = ''ip-address-manager'' then ''infrastructure-metal3:ip-address-manager''
              else ''infrastructure-metal3:manager''))"
proof -
  have key: "imageToKey unicodeLower q fullImage =
     (let nm = takeWhile (\<lambda>c. c \<noteq> CHR '':'')
                 (rev (takeWhile (\<lambda>c. c \<noteq> CHR ''/'') (rev fullImage)))
      in if nm = ''kube-rbac-proxy'' then ''kube-rbac-proxy''
         else if nm = ''ip-address-manager''
           then providerTypeName unicodeLower q @ ''-'' @ name q @ '':ip-address-manager''
         else providerTypeName unicodeLower q @ ''-'' @ name q @ '':manager'')" for q
    by (simp add: imageToKey_def hd_strings_Split last_strings_Split Let_def)
  have ver: "imageToKey unicodeLower (p\<lparr>version := v\<rparr>) fullImage = imageToKey unicodeLower p fullImage"
    by (simp add: imageToKey_def providerTypeName_def Let_def)
  have "providerTypeName unicodeLower p = ''infrastructure''" if "ptype p = ''InfrastructureProvider''"
    using that by (simp add: providerTypeName_def strings_ToLower_def isASCII_def toLowerByte_def)
  then have metal3: "name p = ''metal3'' \<and> ptype p = ''InfrastructureProvider'' \<longrightarrow>
        imageToKey unicodeLower p fullImage =
          (let nm = takeWhile (\<lambda>c. c \<noteq> CHR '':'')
                      (rev (takeWhile (\<lambda>c. c \<noteq> CHR ''/'') (rev fullImage)))
           in if nm = ''kube-rbac-proxy'' then ''kube-rbac-proxy''
              else if nm = ''ip-address-manager'' then ''infrastructure-metal3:ip-address-manager''
              else ''infrastructure-metal3:manager'')"
    by (simp add: key [of p] Let_def)
  from key [of p] ver metal3 show ?thesis
    by (intro conjI)
qed

theorem imageToKey_derivation_witness:
  "imageToKey ex_unicodeLower ex_metal3 ''quay.io/foo/kube-rbac-proxy:v1'' = ''kube-rbac-proxy''
   \<and> imageToKey ex_unicodeLower ex_metal3 ''quay.io/metal3-io/ip-address-manager:v1''
       = ''infrastructure-metal3:ip-address-manager''
   \<and> imageToKey ex_unicodeLower ex_metal3 ''k8s.gcr.io/cluster-api/kubeadm-bootstrap-controller:v0.4.3''
       = ''infrastructure-metal3:manager''"
proof -
  have p: "name ex_metal3 = ''metal3'' \<and> ptype ex_metal3 = ''InfrastructureProvider''"
    by (simp add: ex_metal3_def)
  note key = imageToKey_derivation [of ex_unicodeLower ex_metal3 _ "''v1''",
      THEN conjunct2, THEN conjunct2,
      rule_format, OF p]
  have a: "imageToKey ex_unicodeLower ex_metal3 ''quay.io/foo/kube-rbac-proxy:v1'' = ''kube-rbac-proxy''"
    by (simp add: key Let_def)
  have b: "imageToKey ex_unicodeLower ex_metal3 ''quay.io/metal3-io/ip-address-manager:v1''
       = ''infrastructure-metal3:ip-address-manager''"
    by (simp add: key Let_def)
  have c: "imageToKey ex_unicodeLower ex_metal3 ''k8s.gcr.io/cluster-api/kubeadm-bootstrap-controller:v0.4.3''
       = ''infrastructure-metal3:manager''"
    by (simp add: key Let_def)
  from a b c show ?thesis by (intro conjI)
qed

text \<open>
  The claim as stated fails on a reference by digest: its bare component name, the
  digest stripped, is \<open>kube-rbac-proxy\<close>, and its key is the manager key, since the source
  cuts the segment at the first \<^verbatim>\<open>":"\<close> and compares \<open>kube-rbac-proxy@sha256\<close>.
\<close>

theorem imageToKey_derivation_counterexample:
  "componentName_spec ''quay.io/foo/kube-rbac-proxy@sha256:0a1b'' = ''kube-rbac-proxy''
   \<and> imageToKey ex_unicodeLower ex_metal3 ''quay.io/foo/kube-rbac-proxy@sha256:0a1b''
       = ''infrastructure-metal3:manager''"
  by (simp add: componentName_spec_def imageToKey_def providerTypeName_def strings_ToLower_def isASCII_def
      toLowerByte_def ex_metal3_def)

text \<open>
  C5 (amended). When the catalog file holds a catalog, every Deployment of the set
  converts and the file can be written, \<open>updateImages\<close> writes a catalog in which every
  key derived from a container image of the run maps to the image of the last container,
  in stream order, that derives this key; every other key has the value it had, so every
  key of the prior catalog is still a key.
\<close>

theorem updateImages_merge:
  assumes "\<forall>obj\<in>set objs. GetKind obj = ''Deployment'' \<longrightarrow> Convert_ok obj"
  shows "\<exists>catalog'.
      updateImages unicodeLower p objs (Images catalog) True = Inr (Images catalog')
      \<and> (\<forall>img\<in>set (deploymentImages objs).
            catalog' (imageToKey unicodeLower p img) =
              Some (last (filter (\<lambda>i. imageToKey unicodeLower p i = imageToKey unicodeLower p img) (deploymentImages objs))))
      \<and> (\<forall>k. k \<notin> set (map (imageToKey unicodeLower p) (deploymentImages objs)) \<longrightarrow> catalog' k = catalog k)
      \<and> dom catalog \<subseteq> dom catalog'"
proof -
  define catalog' where "catalog' = updateImages_containers unicodeLower p (deploymentImages objs) catalog"
  have res: "updateImages unicodeLower p objs (Images catalog) True = Inr (Images catalog')"
    using assms by (simp add: updateImages_def updateImages_loop_eq catalog'_def)
  have look: "catalog' k =
     (if k \<in> set (map (imageToKey unicodeLower p) (deploymentImages objs))
      then Some (last (filter (\<lambda>i. imageToKey unicodeLower p i = k) (deploymentImages objs)))
      else catalog k)" for k
    unfolding catalog'_def by (rule updateImages_containers_lookup)
  have derived: "\<forall>img\<in>set (deploymentImages objs).
            catalog' (imageToKey unicodeLower p img) =
              Some (last (filter (\<lambda>i. imageToKey unicodeLower p i = imageToKey unicodeLower p img) (deploymentImages objs)))"
    by (simp add: look)
  have frame: "\<forall>k. k \<notin> set (map (imageToKey unicodeLower p) (deploymentImages objs)) \<longrightarrow> catalog' k = catalog k"
    by (simp add: look)
  have "dom catalog \<subseteq> dom catalog'"
  proof
    fix k assume "k \<in> dom catalog"
    then show "k \<in> dom catalog'"
      by (cases "k \<in> set (map (imageToKey unicodeLower p) (deploymentImages objs))") (auto simp: look)
  qed
  with res derived frame show ?thesis by blast
qed

theorem updateImages_merge_witness:
  "\<exists>catalog'.
      updateImages ex_unicodeLower ex_aws [ex_service, ex_deployment] (Images [''kube-rbac-proxy'' \<mapsto> ''old'']) True
        = Inr (Images catalog')
      \<and> catalog' ''infrastructure-aws:manager'' = Some ''registry.example/capi/helper:v1''
      \<and> catalog' ''kube-rbac-proxy'' = Some ''old''"
proof -
  let ?exs = "[ex_service, ex_deployment]"
  have conv: "\<forall>obj\<in>set ?exs. GetKind obj = ''Deployment'' \<longrightarrow> Convert_ok obj"
    by (simp add: ex_defs ex_deployment_def)
  have imgs: "deploymentImages ?exs
      = [''registry.example/capi/controller:v1'', ''registry.example/capi/helper:v1'']"
    by (simp add: deploymentImages_def ex_defs ex_deployment_def)
  have k1: "imageToKey ex_unicodeLower ex_aws ''registry.example/capi/controller:v1'' = ''infrastructure-aws:manager''"
    by (simp add: imageToKey_def providerTypeName_def strings_ToLower_def isASCII_def toLowerByte_def ex_aws_def)
  have k2: "imageToKey ex_unicodeLower ex_aws ''registry.example/capi/helper:v1'' = ''infrastructure-aws:manager''"
    by (simp add: imageToKey_def providerTypeName_def strings_ToLower_def isASCII_def toLowerByte_def ex_aws_def)
  from updateImages_merge [OF conv, of ex_unicodeLower ex_aws "[''kube-rbac-proxy'' \<mapsto> ''old'']"]
  obtain catalog' where
    res: "updateImages ex_unicodeLower ex_aws ?exs (Images [''kube-rbac-proxy'' \<mapsto> ''old'']) True
        = Inr (Images catalog')"
    and derived: "\<And>img. img \<in> set (deploymentImages ?exs) \<Longrightarrow>
            catalog' (imageToKey ex_unicodeLower ex_aws img) =
              Some (last (filter (\<lambda>i. imageToKey ex_unicodeLower ex_aws i = imageToKey ex_unicodeLower ex_aws img)
                (deploymentImages ?exs)))"
    and frame: "\<And>k. k \<notin> set (map (imageToKey ex_unicodeLower ex_aws) (deploymentImages ?exs))
            \<Longrightarrow> catalog' k = [''kube-rbac-proxy'' \<mapsto> ''old''] k"
    by blast
  have a: "catalog' ''infrastructure-aws:manager'' = Some ''registry.example/capi/helper:v1''"
    using derived [of "''registry.example/capi/controller:v1''"]
    unfolding imgs by (simp add: k1 k2)
  have b: "catalog' ''kube-rbac-proxy'' = Some ''old''"
    using frame [of "''kube-rbac-proxy''"]
    unfolding imgs by (simp add: k1 k2)
  show ?thesis
    by (rule exI [of _ catalog']) (simp only: res a b simp_thms)
qed

text \<open>
  The claim as stated fails when two containers derive the same key: the first
  container's key does not map to that container's image, but to the second one's.
\<close>

theorem updateImages_merge_counterexample:
  "''registry.example/capi/controller:v1'' \<in> set (deploymentImages [ex_deployment])
   \<and> (case updateImages ex_unicodeLower ex_aws [ex_deployment] (Images Map.empty) True of
        Inr (Images catalog') \<Rightarrow>
          catalog' (imageToKey ex_unicodeLower ex_aws ''registry.example/capi/controller:v1'')
      | _ \<Rightarrow> None) = Some ''registry.example/capi/helper:v1''"
  by (simp add: deploymentImages_def updateImages_def imageToKey_def providerTypeName_def
      strings_ToLower_def isASCII_def toLowerByte_def ex_aws_def ex_deployment_def mkObject_def)

text \<open>
  C6. The partitioner returns the objects that are not of kind ClusterRole, Role,
  ClusterRoleBinding, RoleBinding or ServiceAccount, in input order, as the core
  sequence, and the objects of these kinds, each passed through the platform-annotation
  step with the flag false, in input order, as the rbac sequence.
\<close>

theorem splitRBACOut_partition:
  "splitRBACOut setOpenShiftAnnotations objs =
     (filter (\<lambda>obj. GetKind obj \<notin> {''ClusterRole'', ''Role'', ''ClusterRoleBinding'',
                                   ''RoleBinding'', ''ServiceAccount''}) objs,
      map (\<lambda>obj. setOpenShiftAnnotations obj False)
        (filter (\<lambda>obj. GetKind obj \<in> {''ClusterRole'', ''Role'', ''ClusterRoleBinding'',
                                     ''RoleBinding'', ''ServiceAccount''}) objs))"
  by (simp add: splitRBACOut_eq isRBAC_def [abs_def])

theorem splitRBACOut_partition_witness:
  "splitRBACOut ex_setOpenShiftAnnotations
     [ex_service, mkObject ''Role'' ''r1'', ex_crd, mkObject ''ServiceAccount'' ''sa1'']
   = ([ex_service, ex_crd],
      [ex_setOpenShiftAnnotations (mkObject ''Role'' ''r1'') False,
       ex_setOpenShiftAnnotations (mkObject ''ServiceAccount'' ''sa1'') False])"
  using splitRBACOut_partition [of ex_setOpenShiftAnnotations
     "[ex_service, mkObject ''Role'' ''r1'', ex_crd, mkObject ''ServiceAccount'' ''sa1'']"]
  by (simp add: mkObject_def ex_service_def ex_crd_def)

text \<open>
  C7 (amended). When the resolver returns a mapping, the pipeline returns a core stream
  and an rbac stream, and \<open>route\<close> sends every input object to exactly one destination:
  the core stream is the rewrite of the objects routed to it, in input order, the rbac
  stream is the annotation step of the objects routed to it, in input order, and the
  lengths of the two streams and the number of dropped objects add up to the number of
  input objects. The dropped objects are the Certificate, Issuer and Namespace objects
  and, for \<open>metal3\<close>, the objects with \<open>ipam\<close> in their lower-cased name
  (\<^verbatim>\<open>strings.ToLower\<close>, for every Unicode lower-casing \<open>unicodeLower\<close>) that are neither a
  CustomResourceDefinition nor of an RBAC kind.
\<close>

theorem importProviders_streams_conservation:
  assumes "findWebhookServiceSecretName objs = Inr serviceSecretNames"
  shows "\<exists>core rbac.
      importProviders_streams unicodeLower setOpenShiftAnnotations p objs = Inr (core, rbac)
      \<and> core = map (rewriteObject serviceSecretNames) (filter (\<lambda>obj. route unicodeLower p obj = CoreStream) objs)
      \<and> rbac = map (\<lambda>obj. setOpenShiftAnnotations obj False)
                 (filter (\<lambda>obj. route unicodeLower p obj = RBACStream) objs)
      \<and> length core + length rbac + length (filter (\<lambda>obj. route unicodeLower p obj = Dropped) objs)
          = length objs"
proof -
  let ?rw = "rewriteObject serviceSecretNames"
  let ?ann = "\<lambda>obj. setOpenShiftAnnotations obj False"
  define kept where "kept = filter (\<lambda>obj. \<not> isDroppedKind obj) objs"
  have rewrite: "certManagerToServiceCA objs = Inr (map ?rw kept)"
    unfolding kept_def using assms by (rule certManagerToServiceCA_map)
  have split: "splitRBACOut setOpenShiftAnnotations (map ?rw kept) =
      (map ?rw (filter (\<lambda>obj. \<not> isRBAC obj) kept), map ?ann (filter isRBAC kept))"
  proof -
    have "map ?ann (map ?rw (filter isRBAC kept)) = map ?ann (filter isRBAC kept)"
      by (simp add: rewriteObject_RBAC)
    then show ?thesis
      by (simp add: splitRBACOut_eq filter_map comp_def)
  qed
  have rbac: "filter isRBAC kept = filter (\<lambda>obj. route unicodeLower p obj = RBACStream) objs"
    unfolding kept_def filter_filter
    by (rule filter_cong) (auto simp: route_def)
  have core_metal3: "filter (\<lambda>obj. \<not> isIPAM unicodeLower obj) (filter (\<lambda>obj. \<not> isRBAC obj) kept)
      = filter (\<lambda>obj. route unicodeLower p obj = CoreStream) objs" if "name p = ''metal3''"
    unfolding kept_def filter_filter
    using that by (intro filter_cong) (auto simp: route_def)
  have core_other: "filter (\<lambda>obj. \<not> isRBAC obj) kept
      = filter (\<lambda>obj. route unicodeLower p obj = CoreStream) objs" if "name p \<noteq> ''metal3''"
    unfolding kept_def filter_filter
    using that by (intro filter_cong) (auto simp: route_def)
  have streams: "importProviders_streams unicodeLower setOpenShiftAnnotations p objs =
      Inr (map ?rw (filter (\<lambda>obj. route unicodeLower p obj = CoreStream) objs),
           map ?ann (filter (\<lambda>obj. route unicodeLower p obj = RBACStream) objs))"
  proof (cases "name p = ''metal3''")
    case True
    have "filterOutIPAM unicodeLower (map ?rw xs) = map ?rw (filter (\<lambda>obj. \<not> isIPAM unicodeLower obj) xs)" for xs
      by (simp add: filterOutIPAM_eq filter_map comp_def)
    then have "filterOutIPAM unicodeLower (map ?rw (filter (\<lambda>obj. \<not> isRBAC obj) kept))
        = map ?rw (filter (\<lambda>obj. route unicodeLower p obj = CoreStream) objs)"
      by (simp only: core_metal3 [OF True])
    with True show ?thesis
      by (simp add: importProviders_streams_def rewrite split rbac)
  next
    case False
    then show ?thesis
      by (simp add: importProviders_streams_def rewrite split rbac core_other)
  qed
  then show ?thesis
    by (simp add: length_filter_three)
qed

theorem importProviders_streams_conservation_witness:
  "\<exists>core rbac.
      importProviders_streams ex_unicodeLower ex_setOpenShiftAnnotations ex_metal3
        [ex_certificate, ex_crd, ex_service, mkObject ''ServiceAccount'' ''ipam-manager'',
         mkObject ''Deployment'' ''capm3-ipam-controller'', ex_deployment_nonascii,
         mkObject ''Namespace'' ''capm3-system'']
        = Inr (core, rbac)
      \<and> map GetName core = [''crd1'', ''svc1'']
      \<and> map GetName rbac = [''ipam-manager'']
      \<and> length core + length rbac + 4 = 7"
proof -
  let ?exs = "[ex_certificate, ex_crd, ex_service, mkObject ''ServiceAccount'' ''ipam-manager'',
         mkObject ''Deployment'' ''capm3-ipam-controller'', ex_deployment_nonascii,
         mkObject ''Namespace'' ''capm3-system'']"
  have res: "findWebhookServiceSecretName ?exs = Inr [''svc1'' \<mapsto> ''s1'']"
    by (simp add: resolver_defs ex_defs)
  have c: "filter (\<lambda>obj. route ex_unicodeLower ex_metal3 obj = CoreStream) ?exs = [ex_crd, ex_service]"
    by (simp add: route_defs ex_defs)
  have r: "filter (\<lambda>obj. route ex_unicodeLower ex_metal3 obj = RBACStream) ?exs
      = [mkObject ''ServiceAccount'' ''ipam-manager'']"
    by (simp add: route_defs ex_defs)
  have d: "length (filter (\<lambda>obj. route ex_unicodeLower ex_metal3 obj = Dropped) ?exs) = 4"
    by (simp add: route_defs ex_defs)
  from importProviders_streams_conservation
    [OF res, of ex_unicodeLower ex_setOpenShiftAnnotations ex_metal3]
  obtain core rbac where
    s: "importProviders_streams ex_unicodeLower ex_setOpenShiftAnnotations ex_metal3 ?exs = Inr (core, rbac)"
    and core: "core = map (rewriteObject [''svc1'' \<mapsto> ''s1''])
        (filter (\<lambda>obj. route ex_unicodeLower ex_metal3 obj = CoreStream) ?exs)"
    and rbac: "rbac = map (\<lambda>obj. ex_setOpenShiftAnnotations obj False)
        (filter (\<lambda>obj. route ex_unicodeLower ex_metal3 obj = RBACStream) ?exs)"
    and len: "length core + length rbac
        + length (filter (\<lambda>obj. route ex_unicodeLower ex_metal3 obj = Dropped) ?exs) = length ?exs"
    by blast
  have n1: "map GetName core = [''crd1'', ''svc1'']"
    unfolding core c by (simp add: ex_defs)
  have n2: "map GetName rbac = [''ipam-manager'']"
    unfolding rbac r by (simp add: ex_defs)
  from len have n3: "length core + length rbac + 4 = 7"
    unfolding d by simp
  show ?thesis
    by (rule exI [of _ core], rule exI [of _ rbac]) (simp only: s n1 n2 n3 simp_thms)
qed

text \<open>
  The claim as stated fails: for \<open>metal3\<close> a ServiceAccount named \<open>ipam-manager\<close> is in
  the dropped set as the claim words it, and the pipeline sends it to the rbac stream.
\<close>

theorem importProviders_streams_conservation_counterexample:
  "importProviders_streams ex_unicodeLower ex_setOpenShiftAnnotations ex_metal3
       [mkObject ''ServiceAccount'' ''ipam-manager'']
     = Inr ([], [ex_setOpenShiftAnnotations (mkObject ''ServiceAccount'' ''ipam-manager'') False])
   \<and> claimedDropped ex_unicodeLower ex_metal3 (mkObject ''ServiceAccount'' ''ipam-manager'')"
  by (simp add: pipeline_defs resolver_defs route_defs mkObject_def ex_metal3_def)

text \<open>
  C8. Two injection references \<^verbatim>\<open>"<namespace>/<certificate-name>"\<close> with the same
  certificate name and different namespaces (a namespace holds no \<^verbatim>\<open>"/"\<close>) resolve to the
  same result against the same certificate binding; for a certificate name without
  \<^verbatim>\<open>"/"\<close> the result is the lookup of that name alone.
\<close>

theorem secretFromCertNN_ignores_namespace:
  assumes "CHR ''/'' \<notin> set ns1" and "CHR ''/'' \<notin> set ns2"
  shows "secretFromCertNN certs (ns1 @ ''/'' @ certName) = secretFromCertNN certs (ns2 @ ''/'' @ certName)
       \<and> (CHR ''/'' \<notin> set certName \<longrightarrow>
            secretFromCertNN certs (ns1 @ ''/'' @ certName) =
              (case certs certName of
                 None \<Rightarrow> Inr ('''', False)
               | Some secretName \<Rightarrow>
                   if secretName = '''' then Inr ('''', False) else Inr (secretName, True)))"
proof -
  have same: "secretFromCertNN certs (ns1 @ CHR ''/'' # certName)
      = secretFromCertNN certs (ns2 @ CHR ''/'' # certName)"
    by (simp only: secretFromCertNN_qualified [OF assms(1)] secretFromCertNN_qualified [OF assms(2)])
  have lookup: "secretFromCertNN certs (ns1 @ CHR ''/'' # certName) =
              (case certs certName of
                 None \<Rightarrow> Inr ('''', False)
               | Some secretName \<Rightarrow>
                   if secretName = '''' then Inr ('''', False) else Inr (secretName, True))"
    if "CHR ''/'' \<notin> set certName"
  proof -
    from that have "takeWhile (\<lambda>c. c \<noteq> CHR ''/'') certName = certName"
      by (auto simp: takeWhile_eq_all_conv)
    then show ?thesis
      by (simp only: secretFromCertNN_qualified [OF assms(1)])
  qed
  from same lookup show ?thesis
    by simp
qed

theorem secretFromCertNN_ignores_namespace_witness:
  "CHR ''/'' \<notin> set ''ns-a'' \<and> CHR ''/'' \<notin> set ''ns-b''
   \<and> secretFromCertNN [''c1'' \<mapsto> ''s1''] ''ns-a/c1'' = Inr (''s1'', True)
   \<and> secretFromCertNN [''c1'' \<mapsto> ''s1''] ''ns-b/c1'' = Inr (''s1'', True)"
proof -
  have a: "CHR ''/'' \<notin> set ''ns-a''" and b: "CHR ''/'' \<notin> set ''ns-b''"
    by simp_all
  have v: "secretFromCertNN [''c1'' \<mapsto> ''s1''] ''ns-a/c1'' = Inr (''s1'', True)"
    by (simp add: secretFromCertNN_def)
  from secretFromCertNN_ignores_namespace [OF a b, of "[''c1'' \<mapsto> ''s1'']" "''c1''"]
  have "secretFromCertNN [''c1'' \<mapsto> ''s1''] ''ns-b/c1''
      = secretFromCertNN [''c1'' \<mapsto> ''s1''] ''ns-a/c1''"
    by simp
  with a b v show ?thesis by simp
qed

text \<open>
  C9. For every byte string \<open>b\<close>, \<open>ensureNewLine b\<close> is the bytes of \<open>b\<close> before its
  trailing newlines (the stem \<open>p\<close>: \<open>b\<close> is \<open>p\<close> followed by \<open>k\<close> newlines, and \<open>p\<close> does
  not end in a newline), followed by exactly one newline; and \<open>ensureNewLine\<close> is
  idempotent.
\<close>

theorem ensureNewLine_one_trailing_newline:
  "\<exists>p k. b = p @ replicate k (CHR 0x0A)
        \<and> (p = [] \<or> last p \<noteq> CHR 0x0A)
        \<and> ensureNewLine b = p @ [CHR 0x0A]
        \<and> ensureNewLine (ensureNewLine b) = ensureNewLine b"
proof -
  define p where "p = bytes_TrimRight b [CHR 0x0A]"
  define k where "k = length (takeWhile (\<lambda>c. c = CHR 0x0A) (rev b))"
  have decomp: "b = p @ replicate k (CHR 0x0A)"
    unfolding p_def k_def by (rule bytes_TrimRight_decomp)
  have stem: "p = [] \<or> last p \<noteq> CHR 0x0A"
    unfolding p_def by (rule bytes_TrimRight_last)
  have out: "ensureNewLine b = p @ [CHR 0x0A]"
    by (simp add: ensureNewLine_def p_def)
  have "bytes_TrimRight (p @ replicate 1 (CHR 0x0A)) [CHR 0x0A] = p"
    using stem by (rule bytes_TrimRight_stem)
  then have "ensureNewLine (p @ [CHR 0x0A]) = p @ [CHR 0x0A]"
    by (simp add: ensureNewLine_def)
  with out have idem: "ensureNewLine (ensureNewLine b) = ensureNewLine b"
    by simp
  from decomp stem out idem show ?thesis by blast
qed

theorem ensureNewLine_one_trailing_newline_witness:
  "ensureNewLine [CHR ''a'', CHR 0x0A, CHR ''b'', CHR 0x0A, CHR 0x0A]
     = [CHR ''a'', CHR 0x0A, CHR ''b'', CHR 0x0A]
   \<and> ensureNewLine (ensureNewLine [CHR ''a'', CHR 0x0A, CHR ''b'', CHR 0x0A, CHR 0x0A])
     = [CHR ''a'', CHR 0x0A, CHR ''b'', CHR 0x0A]"
proof -
  have val: "ensureNewLine [CHR ''a'', CHR 0x0A, CHR ''b'', CHR 0x0A, CHR 0x0A]
      = [CHR ''a'', CHR 0x0A, CHR ''b'', CHR 0x0A]"
    by (simp add: ensureNewLine_def bytes_TrimRight_def)
  from ensureNewLine_one_trailing_newline [of "[CHR ''a'', CHR 0x0A, CHR ''b'', CHR 0x0A, CHR 0x0A]"]
  have "ensureNewLine (ensureNewLine [CHR ''a'', CHR 0x0A, CHR ''b'', CHR 0x0A, CHR 0x0A])
      = ensureNewLine [CHR ''a'', CHR 0x0A, CHR ''b'', CHR 0x0A, CHR 0x0A]"
    by blast
  with val show ?thesis by simp
qed

text \<open>
  C10. If an injection target of the set carries an injection annotation whose value has
  no \<^verbatim>\<open>"/"\<close>, the decode step of the resolver fails with the index-out-of-range panic
  whatever the certificate binding is, so the integrity check is not reached: the
  resolver's step at that object, once it is converted, ends in that panic, and the
  resolver returns no mapping for the set.
\<close>

theorem findWebhookServiceSecretName_no_separator:
  assumes "obj \<in> set objs"
    and "isInjectionTarget obj"
    and "GetAnnotations obj inject_ca_from = Some certNN"
    and "CHR ''/'' \<notin> set certNN"
  shows "secretFromCertNN certs certNN = Inl IndexOutOfRange
       \<and> (Convert_ok obj \<longrightarrow> findWebhookServiceSecretName_obj certs obj m = Inl IndexOutOfRange)
       \<and> (\<exists>e. findWebhookServiceSecretName objs = Inl e)"
proof -
  have decode: "secretFromCertNN certs' certNN = Inl IndexOutOfRange" for certs'
    using assms(4) by (rule secretFromCertNN_no_sep)
  have step: "findWebhookServiceSecretName_obj certs obj m = Inl IndexOutOfRange" if "Convert_ok obj"
    using assms(2,3) that decode
    by (auto simp: findWebhookServiceSecretName_obj_def isInjectionTarget_def recordInjection_def)
  have "\<not> resolvesToSecret (certificateBinding objs) certNN"
    using decode [of "certificateBinding objs"] by (simp add: secretFromCertNN_resolves)
  then have "\<not> resolverStepOk (certificateBinding objs) obj"
    using assms(2,3) by (simp add: resolverStepOk_def)
  with assms(1) have "\<not> (\<exists>m. findWebhookServiceSecretName objs = Inr m)"
    unfolding findWebhookServiceSecretName_ok by blast
  then have "\<exists>e. findWebhookServiceSecretName objs = Inl e"
    by (simp add: not_Inr_is_Inl)
  with decode step show ?thesis by blast
qed

theorem findWebhookServiceSecretName_no_separator_witness:
  "ex_crd\<lparr>GetAnnotations := [inject_ca_from \<mapsto> ''c1'']\<rparr>
      \<in> set [ex_certificate, ex_crd\<lparr>GetAnnotations := [inject_ca_from \<mapsto> ''c1'']\<rparr>]
   \<and> isInjectionTarget (ex_crd\<lparr>GetAnnotations := [inject_ca_from \<mapsto> ''c1'']\<rparr>)
   \<and> CHR ''/'' \<notin> set ''c1''
   \<and> secretFromCertNN [''c1'' \<mapsto> ''s1''] ''c1'' = Inl IndexOutOfRange
   \<and> findWebhookServiceSecretName
        [ex_certificate, ex_crd\<lparr>GetAnnotations := [inject_ca_from \<mapsto> ''c1'']\<rparr>]
      = Inl IndexOutOfRange"
proof -
  let ?crd = "ex_crd\<lparr>GetAnnotations := [inject_ca_from \<mapsto> ''c1'']\<rparr>"
  have h1: "?crd \<in> set [ex_certificate, ?crd]" by simp
  have h2: "isInjectionTarget ?crd" by (simp add: isInjectionTarget_def ex_defs)
  have h3: "GetAnnotations ?crd inject_ca_from = Some ''c1''" by simp
  have h4: "CHR ''/'' \<notin> set ''c1''" by simp
  have v: "findWebhookServiceSecretName [ex_certificate, ?crd] = Inl IndexOutOfRange"
    by (simp add: resolver_defs ex_defs)
  from findWebhookServiceSecretName_no_separator [OF h1 h2 h3 h4, of "[''c1'' \<mapsto> ''s1'']"]
  have "secretFromCertNN [''c1'' \<mapsto> ''s1''] ''c1'' = Inl IndexOutOfRange"
    by blast
  with h1 h2 h4 v show ?thesis by blast
qed

end
